(* ===== verification/Prelude.thy ===== *)
theory Prelude
  imports Complex_Main "HOL-Library.Sublist"
begin

text \<open>
  Shared vocabulary of the development: the names of the model's basic types, the
  collections of rewrite rules the component theories fill, and the handful of
  ECMAScript primitives that the source calls on strings and numbers
  (\<open>||\<close> on strings, \<open>String.prototype.trim\<close>, \<open>includes\<close>, \<open>split\<close> followed by
  \<open>pop\<close>, \<open>padStart\<close> and \<open>Number.prototype.toString\<close> on non-negative integers),
  each with the lemmas that characterise it.  JavaScript strings are modelled as
  HOL strings (lists of 8-bit characters, read as Latin-1); \<open>js_trim\<close> removes the
  ECMAScript white space and line terminators of that range (tab, line feed,
  vertical tab, form feed, carriage return, space and no-break space U+00A0); the
  others (U+1680, U+2000 to U+200A, U+2028, U+2029, U+202F, U+205F, U+3000, U+FEFF)
  lie outside the 8-bit characters.
\<close>

named_theorems registry_simps \<open>characteristic equations of the registry writers\<close>
named_theorems handler_simps \<open>characteristic equations of the event handlers\<close>

type_synonym ms = nat \<comment> \<open>a time stamp or a delay in milliseconds\<close>
type_synonym job_id = string \<comment> \<open>the key of a download in the registry\<close>

section \<open>Truthiness of strings\<close>

text \<open>\<open>a || b\<close> on two strings: the empty string is falsy.\<close>

definition js_or :: "string \<Rightarrow> string \<Rightarrow> string" where
  "js_or a b = (if a = [] then b else a)"

lemma js_or_simps [simp]:
  "js_or [] b = b"
  "js_or (c # cs) b = c # cs"
  by (simp_all add: js_or_def)

lemma js_or_Nil_iff [simp]: "js_or a b = [] \<longleftrightarrow> a = [] \<and> b = []"
  by (simp add: js_or_def)

section \<open>White space and \<open>trim\<close>\<close>

definition is_js_space :: "char \<Rightarrow> bool" where
  "is_js_space c \<longleftrightarrow> of_char c \<in> {9::nat, 10, 11, 12, 13, 32, 160}"

definition js_trim :: "string \<Rightarrow> string" where
  "js_trim s = rev (dropWhile is_js_space (rev (dropWhile is_js_space s)))"

lemma dropWhile_rev_Nil_iff:
  "dropWhile P (rev xs) = [] \<longleftrightarrow> (\<forall>x \<in> set xs. P x)"
  by (simp add: dropWhile_eq_Nil_conv)

lemma js_trim_Nil_iff: "js_trim s = [] \<longleftrightarrow> (\<forall>c \<in> set s. is_js_space c)"
proof
  assume t: "js_trim s = []"
  show "\<forall>c \<in> set s. is_js_space c"
  proof (cases "dropWhile is_js_space s")
    case Nil
    then show ?thesis by (simp add: dropWhile_eq_Nil_conv)
  next
    case (Cons d ds)
    then have "\<not> is_js_space d" by (metis hd_dropWhile list.distinct(1) list.sel(1))
    moreover from t Cons have "\<forall>x \<in> set (d # ds). is_js_space x"
      by (simp add: js_trim_def dropWhile_eq_Nil_conv)
    ultimately show ?thesis by simp
  qed
next
  assume "\<forall>c \<in> set s. is_js_space c"
  then show "js_trim s = []"
    by (auto simp: js_trim_def dropWhile_eq_Nil_conv dest: set_dropWhileD)
qed

section \<open>\<open>includes\<close>\<close>

fun js_includes :: "string \<Rightarrow> string \<Rightarrow> bool" where
  "js_includes [] t \<longleftrightarrow> t = []"
| "js_includes (c # s) t \<longleftrightarrow> prefix t (c # s) \<or> js_includes s t"

text \<open>The scan is the library's contiguous-sublist relation.\<close>

lemma js_includes_sublist: "js_includes s t \<longleftrightarrow> sublist t s"
  by (induction s) (auto simp: sublist_Cons_right)

section \<open>\<open>split\<close> and \<open>pop\<close>\<close>

text \<open>\<open>s.split(c)\<close> for a one-character separator: always at least one piece.\<close>

fun js_split :: "char \<Rightarrow> string \<Rightarrow> string list" where
  "js_split c [] = [[]]"
| "js_split c (x # xs) =
     (if x = c then [] # js_split c xs
      else (case js_split c xs of [] \<Rightarrow> [[x]] | w # ws \<Rightarrow> (x # w) # ws))"

lemma js_split_not_Nil [simp]: "js_split c s \<noteq> []"
  by (induction s) (auto split: list.splits)

text \<open>\<open>pop()\<close> of the pieces is the text after the last separator.\<close>

lemma length_js_split: "length (js_split c s) = Suc (count_list s c)"
  by (induction s) (auto split: list.splits)

lemma js_split_no_sep: "c \<notin> set s \<Longrightarrow> js_split c s = [s]"
  by (induction s) auto

lemma last_js_split: "last (js_split c s) = rev (takeWhile (\<lambda>x. x \<noteq> c) (rev s))"
proof (induction s)
  case Nil
  then show ?case by simp
next
  case (Cons x xs)
  show ?case
  proof (cases "c \<in> set xs")
    case True
    obtain w ws where sp: "js_split c xs = w # ws"
      by (cases "js_split c xs") auto
    from True have "count_list xs c \<noteq> 0" by (simp add: count_list_0_iff)
    with sp have "ws \<noteq> []" using length_js_split [of c xs] by auto
    with Cons.IH sp True show ?thesis
      by (auto simp: takeWhile_append1 [where x = c])
  next
    case False
    then have tw: "takeWhile (\<lambda>y. y \<noteq> c) (rev xs @ ys) = rev xs @ takeWhile (\<lambda>y. y \<noteq> c) ys"
      for ys by (intro takeWhile_append2) auto
    from False show ?thesis
      by (cases "x = c") (simp_all add: js_split_no_sep tw)
  qed
qed

lemma last_js_split_no_sep: "c \<notin> set (last (js_split c s))"
  by (auto simp: last_js_split dest: set_takeWhileD)

lemma js_split_append_sep: "c \<notin> set a \<Longrightarrow> js_split c (a @ c # b) = a # js_split c b"
  by (induction a) auto

section \<open>\<open>padStart\<close> with a one-character filler\<close>

definition pad_start :: "nat \<Rightarrow> char \<Rightarrow> string \<Rightarrow> string" where
  "pad_start n ch s = replicate (n - length s) ch @ s"

lemma length_pad_start: "length (pad_start n ch s) = max n (length s)"
  by (simp add: pad_start_def)

section \<open>Lists updated at an index\<close>

lemma length_filter_update_off:
  "i < length xs \<Longrightarrow> P (xs ! i) \<Longrightarrow> \<not> P x \<Longrightarrow>
     Suc (length (filter P (xs[i := x]))) = length (filter P xs)"
proof (induction xs arbitrary: i)
  case Nil
  then show ?case by simp
next
  case (Cons y ys)
  then show ?case by (cases i) auto
qed

lemma nth_list_update_if: "xs[i := x] ! j = (if i = j \<and> i < length xs then x else xs ! j)"
  by (cases "i < length xs") (auto simp: nth_list_update list_update_beyond)

lemma length_filter_update_on:
  "i < length xs \<Longrightarrow> \<not> P (xs ! i) \<Longrightarrow> P x \<Longrightarrow>
     length (filter P (xs[i := x])) = Suc (length (filter P xs))"
proof (induction xs arbitrary: i)
  case Nil
  then show ?case by simp
next
  case (Cons y ys)
  then show ?case by (cases i) auto
qed

section \<open>Decimal text of a non-negative integer\<close>

definition digit_char :: "nat \<Rightarrow> char" where
  "digit_char d = ''0123456789'' ! d"

fun js_nat_string :: "nat \<Rightarrow> string" where
  "js_nat_string n =
     (if n < 10 then [digit_char n] else js_nat_string (n div 10) @ [digit_char (n mod 10)])"

declare js_nat_string.simps [simp del]

definition is_digit :: "char \<Rightarrow> bool" where
  "is_digit c \<longleftrightarrow> 48 \<le> (of_char c :: nat) \<and> (of_char c :: nat) \<le> 57"

definition digit_val :: "char \<Rightarrow> nat" where
  "digit_val c = of_char c - 48"

text \<open>The reader used to read an id back: decimal digits only, at least one.\<close>

fun parse_digits :: "nat \<Rightarrow> string \<Rightarrow> nat option" where
  "parse_digits acc [] = Some acc"
| "parse_digits acc (c # cs) =
     (if is_digit c then parse_digits (10 * acc + digit_val c) cs else None)"

definition parse_nat :: "string \<Rightarrow> nat option" where
  "parse_nat s = (if s = [] then None else parse_digits 0 s)"

definition digits_value :: "nat \<Rightarrow> string \<Rightarrow> nat" where
  "digits_value acc s = foldl (\<lambda>a c. 10 * a + digit_val c) acc s"

lemma of_char_digit_char: "d < 10 \<Longrightarrow> of_char (digit_char d) = 48 + d"
  unfolding digit_char_def by (auto simp: less_Suc_eq numeral_eq_Suc)

lemma digit_char_props:
  assumes "d < 10"
  shows "is_digit (digit_char d)" and "digit_val (digit_char d) = d"
  using of_char_digit_char [OF assms] assms by (simp_all add: is_digit_def digit_val_def)

lemma js_nat_string_digits: "\<forall>c \<in> set (js_nat_string n). is_digit c"
proof (induction n rule: js_nat_string.induct)
  case (1 n)
  then show ?case
    by (subst js_nat_string.simps) (auto simp: digit_char_props)
qed

lemma js_nat_string_not_Nil [simp]: "js_nat_string n \<noteq> []"
  by (subst js_nat_string.simps) simp

lemma digits_value_js_nat_string: "digits_value 0 (js_nat_string n) = n"
proof (induction n rule: js_nat_string.induct)
  case (1 n)
  then show ?case
    by (subst js_nat_string.simps) (auto simp: digits_value_def digit_char_props)
qed

lemma parse_digits_value:
  "\<forall>c \<in> set s. is_digit c \<Longrightarrow> parse_digits acc s = Some (digits_value acc s)"
  by (induction s arbitrary: acc) (simp_all add: digits_value_def)

text \<open>Printing and reading back: the decimal text determines the number.\<close>

lemma parse_nat_js_nat_string: "parse_nat (js_nat_string n) = Some n"
  by (simp add: parse_nat_def parse_digits_value js_nat_string_digits digits_value_js_nat_string)

lemma js_nat_string_inject: "js_nat_string m = js_nat_string n \<longleftrightarrow> m = n"
  by (metis option.inject parse_nat_js_nat_string)

text \<open>Leading zeros, as \<open>padStart(n, "0")\<close> adds them, do not change the value read.\<close>

lemma is_digit_not_colon: "is_digit c \<Longrightarrow> c \<noteq> CHR '':''"
  by (auto simp: is_digit_def)

lemma digits_value_zeros: "digits_value 0 (replicate k CHR ''0'' @ s) = digits_value 0 s"
proof -
  have "digits_value 0 (replicate k CHR ''0'') = 0"
    by (induction k) (simp_all add: digits_value_def digit_val_def)
  then show ?thesis by (simp add: digits_value_def)
qed

lemma parse_nat_pad_start: "parse_nat (pad_start n CHR ''0'' (js_nat_string m)) = Some m"
proof -
  have "\<forall>c \<in> set (pad_start n CHR ''0'' (js_nat_string m)). is_digit c"
    using js_nat_string_digits [of m] by (auto simp: pad_start_def is_digit_def)
  moreover have "pad_start n CHR ''0'' (js_nat_string m) \<noteq> []" by (simp add: pad_start_def)
  ultimately show ?thesis
    using digits_value_zeros [of "n - length (js_nat_string m)" "js_nat_string m"]
    by (simp add: parse_nat_def parse_digits_value pad_start_def digits_value_js_nat_string)
qed

lemma length_js_nat_string_small:
  "n < 10 \<Longrightarrow> length (js_nat_string n) = 1"
  "10 \<le> n \<Longrightarrow> n < 100 \<Longrightarrow> length (js_nat_string n) = 2"
  by (subst js_nat_string.simps; simp; subst js_nat_string.simps; simp)+

end
