(* ===== verification/Lifecycle.thy ===== *)
theory Lifecycle
  imports Prelude
begin

text \<open>
  The lifecycle of a download (\<open>src/src/App.tsx\<close>): the string union \<open>status\<close> of
  the \<open>Download\<close> interface as a datatype, ordered as the lifecycle advances, and the
  classifier that the progress timer and the transfer callback both inline
  (\<open>p < 30 ? "preparing" : p < 80 ? "downloading" : "converting"\<close>).  The
  classifier is monotone, never yields a terminal status, and splits the progress
  axis at 30 and 80.
\<close>

datatype status = Preparing | Downloading | Converting | Complete | Error

fun status_rank :: "status \<Rightarrow> nat" where
  "status_rank Preparing = 0"
| "status_rank Downloading = 1"
| "status_rank Converting = 2"
| "status_rank Complete = 3"
| "status_rank Error = 4"

lemma status_rank_inject: "status_rank x = status_rank y \<longleftrightarrow> x = y"
  by (cases x; cases y) simp_all

instantiation status :: linorder
begin

definition less_eq_status :: "status \<Rightarrow> status \<Rightarrow> bool" where
  "x \<le> y \<longleftrightarrow> status_rank x \<le> status_rank y"

definition less_status :: "status \<Rightarrow> status \<Rightarrow> bool" where
  "x < y \<longleftrightarrow> status_rank x < status_rank y"

instance
proof
  fix x y z :: status
  show "(x < y) = (x \<le> y \<and> \<not> y \<le> x)" by (auto simp: less_eq_status_def less_status_def)
  show "x \<le> x" by (simp add: less_eq_status_def)
  show "x \<le> y \<Longrightarrow> y \<le> z \<Longrightarrow> x \<le> z" by (simp add: less_eq_status_def)
  show "x \<le> y \<Longrightarrow> y \<le> x \<Longrightarrow> x = y"
    by (simp add: less_eq_status_def flip: status_rank_inject)
  show "x \<le> y \<or> y \<le> x" by (auto simp: less_eq_status_def)
qed

end

definition is_terminal :: "status \<Rightarrow> bool" where
  "is_terminal st \<longleftrightarrow> st = Complete \<or> st = Error"

text \<open>The inline classifier of the timer callback and of \<open>onDownloadProgress\<close>.\<close>

definition classify :: "rat \<Rightarrow> status" where
  "classify p = (if p < 30 then Preparing else if p < 80 then Downloading else Converting)"

subsection \<open>Properties of the classifier\<close>

lemma classify_Preparing_iff: "classify p = Preparing \<longleftrightarrow> p < 30"
  by (simp add: classify_def)

lemma classify_Downloading_iff: "classify p = Downloading \<longleftrightarrow> 30 \<le> p \<and> p < 80"
  by (simp add: classify_def)

lemma classify_Converting_iff: "classify p = Converting \<longleftrightarrow> 80 \<le> p"
  by (simp add: classify_def)

lemma classify_not_terminal [simp]: "\<not> is_terminal (classify p)"
  by (simp add: classify_def is_terminal_def)

lemma classify_ne_Complete [simp]: "classify p \<noteq> Complete" and classify_ne_Error [simp]: "classify p \<noteq> Error"
  by (simp_all add: classify_def)

lemma classify_le_Converting: "classify p \<le> Converting"
  by (simp add: classify_def less_eq_status_def)

text \<open>C6. The classifier is monotone: more progress never yields an earlier
  lifecycle status.\<close>

theorem classify_mono: "p \<le> q \<Longrightarrow> classify p \<le> classify q"
  by (simp add: classify_def less_eq_status_def)

theorem classify_mono_witness: "(25::rat) \<le> 50 \<and> classify 25 \<le> classify 50 \<and> classify 50 = Downloading"
proof -
  have h: "(25::rat) \<le> 50" by simp
  show ?thesis using classify_mono [OF h] by (simp add: classify_def)
qed

end
