(* ===== verification/Registry.thy ===== *)
theory Registry
  imports Lifecycle
begin

text \<open>
  The job registry: the React state \<open>downloads: Record<string, Download>\<close> of
  \<open>src/src/App.tsx\<close> and the writers the code passes to \<open>setDownloads\<close>.  A
  \<open>Download\<close> is a JavaScript object whose fields may be absent (the code spreads
  \<open>prev[downloadId]\<close>, which is \<open>undefined\<close> once the entry is gone), so every field
  is an option.  Each writer is the code's \<open>prev => ({...prev, [id]: {...prev[id], ...}})\<close>,
  i.e. \<open>merge_job\<close>: it reads the current map and touches one key only.  Removal is
  the \<open>delete\<close> of \<open>removeDownloadAfterDelay\<close>.
\<close>

record download =
  dl_id :: "string option"
  dl_url :: "string option"
  dl_progress :: "rat option"
  dl_status :: "status option"
  dl_error :: "string option"
  dl_title :: "string option"

type_synonym registry = "job_id \<rightharpoonup> download"

text \<open>\<open>{}\<close>, the object an absent entry spreads to.\<close>

definition empty_download :: download where
  "empty_download = \<lparr>dl_id = None, dl_url = None, dl_progress = None, dl_status = None,
     dl_error = None, dl_title = None\<rparr>"

definition spread :: "download option \<Rightarrow> download" where
  "spread d = (case d of None \<Rightarrow> empty_download | Some x \<Rightarrow> x)"

definition merge_job :: "job_id \<Rightarrow> (download \<Rightarrow> download) \<Rightarrow> registry \<Rightarrow> registry" where
  "merge_job k f prev = prev(k \<mapsto> f (spread (prev k)))"

text \<open>The record created by \<open>handleConvert\<close> (its \<open>title\<close> is \<open>videoInfo?.title || url\<close>).\<close>

definition new_download :: "job_id \<Rightarrow> string \<Rightarrow> string \<Rightarrow> download" where
  "new_download k u t = \<lparr>dl_id = Some k, dl_url = Some u, dl_progress = Some 0,
     dl_status = Some Preparing, dl_error = None, dl_title = Some t\<rparr>"

definition create_download :: "job_id \<Rightarrow> string \<Rightarrow> string option \<Rightarrow> registry \<Rightarrow> registry" where
  "create_download k u vtitle prev =
     prev(k \<mapsto> new_download k u (case vtitle of None \<Rightarrow> u | Some t \<Rightarrow> js_or t u))"

text \<open>The progress writer shared by the timer tick and the transfer callback.\<close>

definition set_progress :: "job_id \<Rightarrow> rat \<Rightarrow> registry \<Rightarrow> registry" where
  "set_progress k p = merge_job k (\<lambda>d. d\<lparr>dl_progress := Some p, dl_status := Some (classify p)\<rparr>)"

definition set_complete :: "job_id \<Rightarrow> registry \<Rightarrow> registry" where
  "set_complete k = merge_job k (\<lambda>d. d\<lparr>dl_progress := Some 100, dl_status := Some Complete\<rparr>)"

definition set_failed :: "job_id \<Rightarrow> string \<Rightarrow> registry \<Rightarrow> registry" where
  "set_failed k msg = merge_job k (\<lambda>d. d\<lparr>dl_status := Some Error, dl_error := Some msg\<rparr>)"

definition remove_download :: "job_id \<Rightarrow> registry \<Rightarrow> registry" where
  "remove_download k prev = prev(k := None)"

text \<open>Every stored progress value lies in 0..100.\<close>

definition progress_ok :: "registry \<Rightarrow> bool" where
  "progress_ok reg \<longleftrightarrow> (\<forall>k d p. reg k = Some d \<longrightarrow> dl_progress d = Some p \<longrightarrow> 0 \<le> p \<and> p \<le> 100)"

text \<open>Every entry marked complete is at 100, and every entry marked \<open>error\<close> has a
  message: the two facts the job card relies on when it renders a terminal entry.\<close>

definition entry_ok :: "download \<Rightarrow> bool" where
  "entry_ok d \<longleftrightarrow> (dl_status d = Some Complete \<longrightarrow> dl_progress d = Some 100) \<and>
                  (dl_status d = Some Error \<longrightarrow> dl_error d \<noteq> None)"

definition entries_ok :: "registry \<Rightarrow> bool" where
  "entries_ok reg \<longleftrightarrow> (\<forall>k d. reg k = Some d \<longrightarrow> entry_ok d)"

subsection \<open>Characteristic equations\<close>

lemma spread_simps [simp]:
  "spread None = empty_download" "spread (Some d) = d"
  by (simp_all add: spread_def)

lemma merge_job_same [registry_simps]: "merge_job k f prev k = Some (f (spread (prev k)))"
  by (simp add: merge_job_def)

lemma merge_job_other [registry_simps]: "j \<noteq> k \<Longrightarrow> merge_job k f prev j = prev j"
  by (simp add: merge_job_def)

lemma dom_merge_job [simp]: "dom (merge_job k f prev) = insert k (dom prev)"
  by (simp add: merge_job_def)

lemma set_progress_same [registry_simps]:
  "set_progress k p prev k =
     Some ((spread (prev k))\<lparr>dl_progress := Some p, dl_status := Some (classify p)\<rparr>)"
  by (simp add: set_progress_def merge_job_same)

lemma set_complete_same [registry_simps]:
  "set_complete k prev k = Some ((spread (prev k))\<lparr>dl_progress := Some 100, dl_status := Some Complete\<rparr>)"
  by (simp add: set_complete_def merge_job_same)

lemma set_failed_same [registry_simps]:
  "set_failed k msg prev k = Some ((spread (prev k))\<lparr>dl_status := Some Error, dl_error := Some msg\<rparr>)"
  by (simp add: set_failed_def merge_job_same)

lemma create_download_same [registry_simps]:
  "create_download k u vt prev k = Some (new_download k u (case vt of None \<Rightarrow> u | Some t \<Rightarrow> js_or t u))"
  by (simp add: create_download_def)

lemma remove_download_same [registry_simps]: "remove_download k prev k = None"
  by (simp add: remove_download_def)

text \<open>Frame: every writer for key \<open>k\<close> leaves every other key as it was.\<close>

lemma writers_other [registry_simps]:
  assumes "j \<noteq> k"
  shows "set_progress k p prev j = prev j" and "set_complete k prev j = prev j"
    and "set_failed k msg prev j = prev j" and "create_download k u vt prev j = prev j"
    and "remove_download k prev j = prev j"
  using assms by (simp_all add: set_progress_def set_complete_def set_failed_def
      create_download_def remove_download_def merge_job_other)

lemma remove_download_idem: "remove_download k (remove_download k prev) = remove_download k prev"
  by (simp add: remove_download_def)

lemma remove_download_absent: "prev k = None \<Longrightarrow> remove_download k prev = prev"
  by (auto simp: remove_download_def)

lemma dom_remove_download [simp]: "dom (remove_download k prev) = dom prev - {k}"
  by (simp add: remove_download_def)

subsection \<open>The progress range\<close>

lemma progress_okD:
  "progress_ok reg \<Longrightarrow> reg k = Some d \<Longrightarrow> dl_progress d = Some p \<Longrightarrow> 0 \<le> p \<and> p \<le> 100"
  by (auto simp: progress_ok_def)

lemma progress_ok_empty: "progress_ok Map.empty"
  by (simp add: progress_ok_def)

lemma progress_ok_spread: "progress_ok reg \<Longrightarrow> dl_progress (spread (reg k)) = Some p \<Longrightarrow> 0 \<le> p \<and> p \<le> 100"
  by (cases "reg k") (auto simp: empty_download_def dest: progress_okD)

lemma progress_ok_writers:
  assumes "progress_ok reg"
  shows "0 \<le> p \<Longrightarrow> p \<le> 100 \<Longrightarrow> progress_ok (set_progress k p reg)"
    and "progress_ok (set_complete k reg)"
    and "progress_ok (set_failed k msg reg)"
    and "progress_ok (create_download k u vt reg)"
    and "progress_ok (remove_download k reg)"
  using assms progress_ok_spread [OF assms, of k]
  by (auto simp: progress_ok_def set_progress_def set_complete_def set_failed_def
      create_download_def new_download_def remove_download_def merge_job_def)

subsection \<open>Terminal entries\<close>

lemma entries_ok_spread: "entries_ok reg \<Longrightarrow> entry_ok (spread (reg k))"
  by (cases "reg k") (auto simp: entries_ok_def entry_ok_def empty_download_def)

lemma entries_ok_writers:
  assumes "entries_ok reg"
  shows "entries_ok (set_progress k p reg)" and "entries_ok (set_complete k reg)"
    and "entries_ok (set_failed k msg reg)" and "entries_ok (create_download k u vt reg)"
    and "entries_ok (remove_download k reg)"
  using assms entries_ok_spread [OF assms, of k]
  by (auto simp: entries_ok_def entry_ok_def set_progress_def set_complete_def set_failed_def
      create_download_def new_download_def remove_download_def merge_job_def)

end
