(* ===== verification/Simulator.thy ===== *)
theory Simulator
  imports Registry
begin

text \<open>
  The progress simulator of \<open>handleConvert\<close> (\<open>src/src/App.tsx\<close>): the closure
  variable \<open>artificialProgress\<close> and the \<open>setInterval\<close> callback that raises it by
  one every 100 ms and writes it into the registry while it is at most 95.  An
  interval is a record: the job it writes to, the counter it closes over, whether
  \<open>clearInterval\<close> has been called on it, and when it fires next.  The tick is
  total; the counter keeps growing after 95 although nothing more is written.
\<close>

record interval =
  iv_job :: job_id
  iv_count :: nat
  iv_live :: bool
  iv_due :: ms

definition tick_period :: ms where
  "tick_period = 100"

definition artificial_cap :: nat where
  "artificial_cap = 95"

text \<open>\<open>let artificialProgress = 0; progressInterval = setInterval(..., 100)\<close>.\<close>

definition start_interval :: "job_id \<Rightarrow> ms \<Rightarrow> interval" where
  "start_interval k now = \<lparr>iv_job = k, iv_count = 0, iv_live = True, iv_due = now + tick_period\<rparr>"

text \<open>One run of the callback: \<open>artificialProgress += 1; if (artificialProgress <= 95) setDownloads(...)\<close>.\<close>

definition interval_tick :: "interval \<Rightarrow> registry \<Rightarrow> interval \<times> registry" where
  "interval_tick iv reg =
     (let c = Suc (iv_count iv)
      in (iv\<lparr>iv_count := c, iv_due := iv_due iv + tick_period\<rparr>,
          if c \<le> artificial_cap then set_progress (iv_job iv) (of_nat c) reg else reg))"

definition clear_interval :: "interval \<Rightarrow> interval" where
  "clear_interval iv = iv\<lparr>iv_live := False\<rparr>"

text \<open>The interval left alone for \<open>n\<close> ticks.\<close>

text \<open>What the callback writes when the counter is \<open>c\<close>.\<close>

definition sim_write :: "download option \<Rightarrow> nat \<Rightarrow> download" where
  "sim_write d c = (spread d)\<lparr>dl_progress := Some (of_nat c), dl_status := Some (classify (of_nat c))\<rparr>"

definition run_ticks :: "nat \<Rightarrow> interval \<times> registry \<Rightarrow> interval \<times> registry" where
  "run_ticks n = (\<lambda>(iv, r). interval_tick iv r) ^^ n"

subsection \<open>Properties of one tick\<close>

lemma interval_tick_fst [simp]:
  "fst (interval_tick iv reg) = iv\<lparr>iv_count := Suc (iv_count iv), iv_due := iv_due iv + tick_period\<rparr>"
  by (simp add: interval_tick_def Let_def)

lemma interval_tick_snd:
  "snd (interval_tick iv reg) =
     (if Suc (iv_count iv) \<le> artificial_cap then set_progress (iv_job iv) (of_nat (Suc (iv_count iv))) reg
      else reg)"
  by (simp add: interval_tick_def Let_def)

lemma interval_tick_other [registry_simps]:
  "k \<noteq> iv_job iv \<Longrightarrow> snd (interval_tick iv reg) k = reg k"
  by (simp add: interval_tick_def Let_def writers_other)

lemma interval_tick_after_cap:
  "artificial_cap \<le> iv_count iv \<Longrightarrow> snd (interval_tick iv reg) = reg"
  by (simp add: interval_tick_def Let_def)

lemma clear_interval_idem: "clear_interval (clear_interval iv) = clear_interval iv"
  by (simp add: clear_interval_def)

text \<open>C3. The simulator never claims completion: if after a tick an entry is
  complete or at 100, it was exactly so before the tick.\<close>

theorem interval_tick_no_completion:
  assumes "snd (interval_tick iv reg) k = Some d"
    and "dl_status d = Some Complete \<or> dl_progress d = Some 100"
  shows "reg k = Some d"
proof (cases "k = iv_job iv \<and> Suc (iv_count iv) \<le> artificial_cap")
  case True
  then have "d = sim_write (reg k) (Suc (iv_count iv))"
    using assms(1) by (simp add: interval_tick_def Let_def set_progress_same sim_write_def)
  moreover from True have "rat_of_nat (Suc (iv_count iv)) \<noteq> 100"
    by (simp add: artificial_cap_def del: of_nat_Suc)
  ultimately show ?thesis using assms(2) by (simp add: sim_write_def)
next
  case False
  then have "snd (interval_tick iv reg) k = reg k"
    by (auto simp: interval_tick_def Let_def writers_other)
  with assms(1) show ?thesis by simp
qed

theorem interval_tick_no_completion_witness:
  "snd (interval_tick \<lparr>iv_job = ''1'', iv_count = 95, iv_live = True, iv_due = 0\<rparr>
         [''1'' \<mapsto> empty_download\<lparr>dl_progress := Some 100, dl_status := Some Complete\<rparr>]) ''1'' =
     Some (empty_download\<lparr>dl_progress := Some 100, dl_status := Some Complete\<rparr>) \<and>
   [''1'' \<mapsto> empty_download\<lparr>dl_progress := Some 100, dl_status := Some Complete\<rparr>] ''1'' =
     Some (empty_download\<lparr>dl_progress := Some 100, dl_status := Some Complete\<rparr>)"
proof -
  let ?d = "empty_download\<lparr>dl_progress := Some 100, dl_status := Some Complete\<rparr>"
  let ?iv = "\<lparr>iv_job = ''1'', iv_count = 95, iv_live = True, iv_due = 0\<rparr>"
  have t: "snd (interval_tick ?iv [''1'' \<mapsto> ?d]) ''1'' = Some ?d"
    by (simp add: interval_tick_def Let_def artificial_cap_def)
  have c: "dl_status ?d = Some Complete \<or> dl_progress ?d = Some 100" by simp
  show ?thesis using interval_tick_no_completion [OF t c] t by simp
qed

subsection \<open>A run of ticks\<close>

lemma run_ticks_Suc:
  "run_ticks (Suc n) st = (case run_ticks n st of (iv, r) \<Rightarrow> interval_tick iv r)"
  by (simp add: run_ticks_def)

lemma run_ticks_interval:
  "fst (run_ticks n (iv, reg)) = iv\<lparr>iv_count := iv_count iv + n, iv_due := iv_due iv + n * tick_period\<rparr>"
proof (induction n)
  case 0
  then show ?case by (simp add: run_ticks_def)
next
  case (Suc n)
  obtain iv' r' where st: "run_ticks n (iv, reg) = (iv', r')" by (cases "run_ticks n (iv, reg)")
  with Suc.IH have "iv' = iv\<lparr>iv_count := iv_count iv + n, iv_due := iv_due iv + n * tick_period\<rparr>"
    by simp
  with st show ?case by (simp add: run_ticks_Suc)
qed

text \<open>C5. Left alone, the simulator shows \<open>min(c + n, 95)\<close> after \<open>n\<close> ticks from
  counter \<open>c\<close> (with the status the classifier gives it), and writes nothing once
  the counter has reached 95.\<close>

theorem run_ticks_job:
  "snd (run_ticks n (iv, reg)) (iv_job iv) =
     (if n = 0 \<or> artificial_cap \<le> iv_count iv then reg (iv_job iv)
      else Some (sim_write (reg (iv_job iv)) (min (iv_count iv + n) artificial_cap)))"
proof (induction n)
  case 0
  then show ?case by (simp add: run_ticks_def)
next
  case (Suc n)
  obtain iv' r' where st: "run_ticks n (iv, reg) = (iv', r')" by (cases "run_ticks n (iv, reg)")
  from st have iv': "iv' = iv\<lparr>iv_count := iv_count iv + n, iv_due := iv_due iv + n * tick_period\<rparr>"
    using run_ticks_interval [of n iv reg] by simp
  from st Suc.IH have r': "r' (iv_job iv) = (if n = 0 \<or> artificial_cap \<le> iv_count iv then reg (iv_job iv)
      else Some (sim_write (reg (iv_job iv)) (min (iv_count iv + n) artificial_cap)))"
    by simp
  show ?case
  proof (cases "artificial_cap \<le> iv_count iv + n")
    case True
    then have "min (iv_count iv + n) artificial_cap = artificial_cap"
      and "min (iv_count iv + Suc n) artificial_cap = artificial_cap" by simp_all
    with True r' show ?thesis
      by (auto simp: run_ticks_Suc st iv' interval_tick_snd)
  next
    case False
    with r' show ?thesis
      by (auto simp: run_ticks_Suc st iv' interval_tick_snd set_progress_same sim_write_def)
  qed
qed

lemma run_ticks_other:
  "k \<noteq> iv_job iv \<Longrightarrow> snd (run_ticks n (iv, reg)) k = reg k"
proof (induction n)
  case 0
  then show ?case by (simp add: run_ticks_def)
next
  case (Suc n)
  obtain iv' r' where st: "run_ticks n (iv, reg) = (iv', r')" by (cases "run_ticks n (iv, reg)")
  from st have "iv_job iv' = iv_job iv"
    using run_ticks_interval [of n iv reg] by simp
  with Suc st show ?case by (simp add: run_ticks_Suc interval_tick_other)
qed

lemma run_ticks_after_cap:
  "artificial_cap \<le> iv_count iv \<Longrightarrow> snd (run_ticks n (iv, reg)) = reg"
proof (induction n)
  case 0
  then show ?case by (simp add: run_ticks_def)
next
  case (Suc n)
  obtain iv' r' where st: "run_ticks n (iv, reg) = (iv', r')" by (cases "run_ticks n (iv, reg)")
  from st have "iv_count iv' = iv_count iv + n"
    using run_ticks_interval [of n iv reg] by simp
  with Suc st show ?case by (simp add: run_ticks_Suc interval_tick_after_cap)
qed

end
