(* ===== verification/TransferAdapter.thy ===== *)
theory TransferAdapter
  imports Registry
begin

text \<open>
  The transfer-progress adapter: the \<open>onDownloadProgress\<close> callback that
  \<open>handleConvert\<close> (\<open>src/src/App.tsx\<close>) hands to \<open>axios.post\<close>.  It turns a sample
  \<open>(loaded, total)\<close> into a percentage (\<open>total || 100\<close>: an unknown or zero total
  counts as 100), and writes \<open>Math.min(99, progress)\<close> only when the percentage is
  above the simulator's counter \<open>artificialProgress\<close>, which it reads through the
  shared closure.  JavaScript's floating-point quotient is modelled by the exact
  rational one.
\<close>

definition total_or_100 :: "nat option \<Rightarrow> nat" where
  "total_or_100 tot = (case tot of None \<Rightarrow> 100 | Some t \<Rightarrow> if t = 0 then 100 else t)"

definition transfer_percent :: "nat \<Rightarrow> nat option \<Rightarrow> rat" where
  "transfer_percent loaded tot = of_nat loaded / of_nat (total_or_100 tot) * 100"

definition on_download_progress :: "nat \<Rightarrow> job_id \<Rightarrow> nat \<Rightarrow> nat option \<Rightarrow> registry \<Rightarrow> registry" where
  "on_download_progress artificial k loaded tot reg =
     (let progress = transfer_percent loaded tot
      in if of_nat artificial < progress then set_progress k (min 99 progress) reg else reg)"

subsection \<open>Properties\<close>

lemma total_or_100_pos: "0 < total_or_100 tot"
  by (simp add: total_or_100_def split: option.splits)

lemma transfer_percent_nonneg: "0 \<le> transfer_percent loaded tot"
  by (simp add: transfer_percent_def)

lemma transfer_percent_le_100:
  "loaded \<le> total_or_100 tot \<Longrightarrow> transfer_percent loaded tot \<le> 100"
proof -
  assume le: "loaded \<le> total_or_100 tot"
  have pos: "(0::rat) < of_nat (total_or_100 tot)" using total_or_100_pos [of tot] by simp
  from le have "(of_nat loaded :: rat) \<le> of_nat (total_or_100 tot)" by simp
  with pos have "(of_nat loaded :: rat) / of_nat (total_or_100 tot) \<le> 1" by simp
  then have "(of_nat loaded :: rat) / of_nat (total_or_100 tot) * 100 \<le> 1 * 100"
    by (rule mult_right_mono) simp
  then show ?thesis by (simp only: transfer_percent_def mult_1)
qed

lemma on_download_progress_other [registry_simps]:
  "j \<noteq> k \<Longrightarrow> on_download_progress a k l t reg j = reg j"
  by (simp add: on_download_progress_def Let_def writers_other)

lemma on_download_progress_stale:
  "\<not> of_nat artificial < transfer_percent loaded tot \<Longrightarrow>
     on_download_progress artificial k loaded tot reg = reg"
  by (simp add: on_download_progress_def)

lemma on_download_progress_forward:
  assumes "of_nat artificial < transfer_percent loaded tot"
  shows "on_download_progress artificial k loaded tot reg =
           set_progress k (min 99 (transfer_percent loaded tot)) reg"
  using assms by (simp add: on_download_progress_def)

text \<open>C4. Forward merge: when the adapter writes, it writes \<open>set_progress\<close> of a
  value in \<open>(0, 99]\<close> that is above the simulator's counter whenever the counter
  is below 99.\<close>

theorem on_download_progress_written:
  assumes "on_download_progress a k loaded tot reg \<noteq> reg"
  shows "\<exists>v. on_download_progress a k loaded tot reg = set_progress k v reg \<and>
           0 < v \<and> v \<le> 99 \<and> (of_nat a < (99::rat) \<longrightarrow> of_nat a < v)"
proof -
  let ?p = "transfer_percent loaded tot"
  from assms have lt: "of_nat a < ?p" by (auto simp: on_download_progress_def)
  then have "0 < ?p" by (rule order.strict_trans1 [rotated]) simp
  with lt show ?thesis
    by (intro exI [of _ "min 99 ?p"]) (simp add: on_download_progress_forward)
qed

theorem on_download_progress_written_witness:
  "on_download_progress 45 ''1'' 50 (Some 100) Map.empty \<noteq> Map.empty \<and>
   (\<exists>v. on_download_progress 45 ''1'' 50 (Some 100) Map.empty = set_progress ''1'' v Map.empty \<and>
        0 < v \<and> v \<le> 99 \<and> (of_nat 45 < (99::rat) \<longrightarrow> of_nat 45 < v))"
proof -
  have h: "on_download_progress 45 ''1'' 50 (Some 100) Map.empty \<noteq> Map.empty"
    by (simp add: on_download_progress_def transfer_percent_def total_or_100_def
        set_progress_def merge_job_def)
  show ?thesis using on_download_progress_written [OF h] h by blast
qed

end
