(* ===== verification/Orchestrator.thy ===== *)
theory Orchestrator
  imports Simulator TransferAdapter
begin

text \<open>
  The download orchestrator: the component \<open>App\<close> of \<open>src/src/App.tsx\<close> with its
  React state (\<open>useState\<close> hooks) as one record, and each callback the event loop
  may run as one state transformer.  \<open>handleConvert\<close> is cut at its \<open>await\<close>: the
  part up to the request (\<open>handle_convert\<close>), the resolution branch with its
  \<open>finally\<close> (\<open>handle_convert_success\<close>) and the rejection branch with its
  \<open>finally\<close> (\<open>handle_convert_failure\<close>); the closures the code creates become
  list entries: an interval (\<open>intervals\<close>), the pending request that remembers its
  job and interval (\<open>requests\<close>), the eviction timers of
  \<open>removeDownloadAfterDelay\<close> (\<open>evictions\<close>) and the pending preview lookups of
  \<open>handleUrlChange\<close> (\<open>previews\<close>).  The browser's side effects that the user
  sees are recorded as lists: the file saves (\<open>saved\<close>) and the toasts
  (\<open>toasts\<close>).  The base URL \<open>import.meta.env.VITE_API_BASE_URL\<close> is the
  constant field \<open>api_base\<close>.
\<close>

text \<open>\<open>interface VideoInfo\<close> and \<open>interface DownloadResponse\<close>.\<close>

record vinfo =
  vi_title :: string
  vi_duration :: nat
  vi_thumbnail :: string

record download_response =
  resp_message :: string
  resp_download_url :: string
  resp_thumbnail_url :: string
  resp_debug_info :: string

text \<open>What the \<open>catch\<close> can receive: an axios error, with the optional
  \<open>response.data.detail\<close> of the server, or any other exception.\<close>

datatype conv_error = AxiosError "string option" | OtherError

datatype media_format = Mp3 | Mp4

record request =
  rq_job :: job_id
  rq_interval :: nat
  rq_url :: string
  rq_quality :: string
  rq_open :: bool

record eviction =
  ev_job :: job_id
  ev_due :: ms
  ev_fired :: bool

record preview =
  pv_url :: string
  pv_open :: bool

datatype toast_kind = ToastSuccess | ToastError

record toast =
  toast_title :: string
  toast_desc :: string
  toast_kind :: toast_kind

record saved_link =
  link_href :: string
  link_download :: string

record app =
  api_base :: string
  now :: ms
  format :: media_format
  url :: string
  is_loading :: bool
  error :: string
  quality :: string
  video_info :: "vinfo option"
  is_video_info_loading :: bool
  downloads :: registry
  intervals :: "interval list"
  requests :: "request list"
  evictions :: "eviction list"
  previews :: "preview list"
  saved :: "saved_link list"
  toasts :: "toast list"

definition init_app :: "string \<Rightarrow> ms \<Rightarrow> app" where
  "init_app base t0 = \<lparr>api_base = base, now = t0, format = Mp3, url = [], is_loading = False,
     error = [], quality = ''best'', video_info = None, is_video_info_loading = False,
     downloads = Map.empty, intervals = [], requests = [], evictions = [], previews = [],
     saved = [], toasts = []\<rparr>"

text \<open>\<open>qualityOptions\<close>: the options of the quality selector as (value, label) pairs.\<close>

definition quality_options :: "media_format \<Rightarrow> (string \<times> string) list" where
  "quality_options f =
     (if f = Mp3 then [(''best'', ''High Quality''), (''medium'', ''Medium Quality''), (''worst'', ''Low Quality'')]
      else [(''best'', ''Best Quality''), (''medium'', ''Medium Quality''), (''worst'', ''Low Quality'')])"

section \<open>Helpers of the handlers\<close>

text \<open>\<open>Date.now().toString()\<close>.\<close>

definition download_id :: "ms \<Rightarrow> job_id" where
  "download_id t = js_nat_string t"

text \<open>\<open>downloadLink.split("/").pop() || "audio.mp3"\<close>.\<close>

definition download_file_name :: "string \<Rightarrow> string" where
  "download_file_name link = js_or (last (js_split CHR ''/'' link)) ''audio.mp3''"

text \<open>The message of the \<open>catch\<close> block.\<close>

definition error_message :: "conv_error \<Rightarrow> string" where
  "error_message e =
     (case e of AxiosError detail \<Rightarrow>
        (case detail of None \<Rightarrow> ''Conversion failed'' | Some m \<Rightarrow> js_or m ''Conversion failed'')
      | OtherError \<Rightarrow> ''An error occurred during conversion'')"

text \<open>\<open>removeDownloadAfterDelay(id, delay)\<close>: arms a timer; the deletion itself is
  \<open>handle_eviction\<close>.\<close>

definition remove_download_after_delay :: "job_id \<Rightarrow> ms \<Rightarrow> app \<Rightarrow> app" where
  "remove_download_after_delay k delay s =
     s\<lparr>evictions := evictions s @ [\<lparr>ev_job = k, ev_due = now s + delay, ev_fired = False\<rparr>]\<rparr>"

definition success_delay :: ms where "success_delay = 3000"
definition failure_delay :: ms where "failure_delay = 5000"

section \<open>The handlers\<close>

text \<open>\<open>handleConvert\<close> up to its \<open>await axios.post\<close>.\<close>

definition handle_convert :: "app \<Rightarrow> app" where
  "handle_convert s =
     (if js_trim (url s) = [] then s\<lparr>error := ''Please enter a valid YouTube URL''\<rparr>
      else
        let k = download_id (now s); h = length (intervals s)
        in s\<lparr>downloads := create_download k (url s) (map_option vi_title (video_info s)) (downloads s),
             is_loading := True, error := [],
             intervals := intervals s @ [start_interval k (now s)],
             requests := requests s @ [\<lparr>rq_job = k, rq_interval = h, rq_url = url s,
                                        rq_quality = quality s, rq_open = True\<rparr>]\<rparr>)"

text \<open>The \<open>setInterval\<close> callback of interval \<open>h\<close>.\<close>

definition handle_tick :: "nat \<Rightarrow> app \<Rightarrow> app" where
  "handle_tick h s =
     (case interval_tick (intervals s ! h) (downloads s) of
        (iv, reg) \<Rightarrow> s\<lparr>intervals := (intervals s)[h := iv], downloads := reg\<rparr>)"

text \<open>The \<open>onDownloadProgress\<close> callback of request \<open>r\<close>; it reads the counter of
  the request's own interval.\<close>

definition handle_download_progress :: "nat \<Rightarrow> nat \<Rightarrow> nat option \<Rightarrow> app \<Rightarrow> app" where
  "handle_download_progress r loaded tot s =
     (let rq = requests s ! r
      in s\<lparr>downloads := on_download_progress (iv_count (intervals s ! rq_interval rq)) (rq_job rq)
                          loaded tot (downloads s)\<rparr>)"

definition close_request :: "nat \<Rightarrow> app \<Rightarrow> app" where
  "close_request r s = s\<lparr>requests := (requests s)[r := (requests s ! r)\<lparr>rq_open := False\<rparr>]\<rparr>"

text \<open>The code after the \<open>await\<close> when the request resolves, and the \<open>finally\<close>.
  The interval is not cleared on this path.\<close>

definition handle_convert_success :: "nat \<Rightarrow> download_response \<Rightarrow> app \<Rightarrow> app" where
  "handle_convert_success r resp s =
     (let k = rq_job (requests s ! r);
          link = api_base s @ resp_download_url resp;
          s1 = (close_request r s)\<lparr>downloads := set_complete k (downloads s),
                 saved := saved s @ [\<lparr>link_href = link, link_download = download_file_name link\<rparr>]\<rparr>;
          s2 = remove_download_after_delay k success_delay s1
      in s2\<lparr>url := [], video_info := None,
            toasts := toasts s2 @ [\<lparr>toast_title = ''Success!'',
                                     toast_desc = ''Your file is being downloaded.'',
                                     toast_kind = ToastSuccess\<rparr>],
            is_loading := False\<rparr>)"

text \<open>The \<open>catch\<close> block and the \<open>finally\<close>.\<close>

definition handle_convert_failure :: "nat \<Rightarrow> conv_error \<Rightarrow> app \<Rightarrow> app" where
  "handle_convert_failure r e s =
     (let rq = requests s ! r; k = rq_job rq; h = rq_interval rq; msg = error_message e;
          s1 = (close_request r s)\<lparr>intervals := (intervals s)[h := clear_interval (intervals s ! h)],
                 downloads := set_failed k msg (downloads s)\<rparr>;
          s2 = remove_download_after_delay k failure_delay s1
      in s2\<lparr>error := msg,
            toasts := toasts s2 @ [\<lparr>toast_title = ''Error'', toast_desc = msg, toast_kind = ToastError\<rparr>],
            is_loading := False\<rparr>)"

text \<open>The \<open>setTimeout\<close> callback of \<open>removeDownloadAfterDelay\<close>.\<close>

definition handle_eviction :: "nat \<Rightarrow> app \<Rightarrow> app" where
  "handle_eviction i s =
     (let e = evictions s ! i
      in s\<lparr>evictions := (evictions s)[i := e\<lparr>ev_fired := True\<rparr>],
           downloads := remove_download (ev_job e) (downloads s)\<rparr>)"

text \<open>\<open>handleUrlChange\<close> up to its \<open>await\<close>, and the two ways the lookup ends.\<close>

definition is_video_url :: "string \<Rightarrow> bool" where
  "is_video_url u \<longleftrightarrow> js_includes u ''youtube.com'' \<or> js_includes u ''youtu.be''"

definition handle_url_change :: "string \<Rightarrow> app \<Rightarrow> app" where
  "handle_url_change u s =
     (if is_video_url u
      then s\<lparr>url := u, is_video_info_loading := True, video_info := None,
             previews := previews s @ [\<lparr>pv_url = u, pv_open = True\<rparr>]\<rparr>
      else s\<lparr>url := u, video_info := None\<rparr>)"

definition close_preview :: "nat \<Rightarrow> app \<Rightarrow> app" where
  "close_preview p s = s\<lparr>previews := (previews s)[p := (previews s ! p)\<lparr>pv_open := False\<rparr>]\<rparr>"

definition handle_preview_success :: "nat \<Rightarrow> vinfo \<Rightarrow> app \<Rightarrow> app" where
  "handle_preview_success p v s =
     (close_preview p s)\<lparr>video_info := Some v, error := [], is_video_info_loading := False\<rparr>"

definition handle_preview_failure :: "nat \<Rightarrow> app \<Rightarrow> app" where
  "handle_preview_failure p s =
     (close_preview p s)\<lparr>video_info := None, error := ''Could not fetch video information'',
                         is_video_info_loading := False\<rparr>"

section \<open>What each handler does to the registry and to the timers\<close>

lemma downloads_handlers [handler_simps]:
  "downloads (handle_convert s) =
     (if js_trim (url s) = [] then downloads s
      else create_download (download_id (now s)) (url s) (map_option vi_title (video_info s)) (downloads s))"
  "downloads (handle_tick h s) = snd (interval_tick (intervals s ! h) (downloads s))"
  "downloads (handle_download_progress r l t s) =
     on_download_progress (iv_count (intervals s ! rq_interval (requests s ! r))) (rq_job (requests s ! r))
       l t (downloads s)"
  "downloads (handle_convert_success r resp s) = set_complete (rq_job (requests s ! r)) (downloads s)"
  "downloads (handle_convert_failure r e s) =
     set_failed (rq_job (requests s ! r)) (error_message e) (downloads s)"
  "downloads (handle_eviction i s) = remove_download (ev_job (evictions s ! i)) (downloads s)"
  "downloads (handle_url_change u s) = downloads s"
  "downloads (handle_preview_success p v s) = downloads s"
  "downloads (handle_preview_failure p s) = downloads s"
  by (simp_all add: handle_convert_def handle_tick_def handle_download_progress_def
      handle_convert_success_def handle_convert_failure_def handle_eviction_def
      handle_url_change_def handle_preview_success_def handle_preview_failure_def
      close_request_def close_preview_def remove_download_after_delay_def Let_def case_prod_unfold)

lemma intervals_handlers [handler_simps]:
  "intervals (handle_convert s) =
     (if js_trim (url s) = [] then intervals s else intervals s @ [start_interval (download_id (now s)) (now s)])"
  "intervals (handle_tick h s) = (intervals s)[h := fst (interval_tick (intervals s ! h) (downloads s))]"
  "intervals (handle_download_progress r l t s) = intervals s"
  "intervals (handle_convert_success r resp s) = intervals s"
  "intervals (handle_convert_failure r e s) =
     (intervals s)[rq_interval (requests s ! r) := clear_interval (intervals s ! rq_interval (requests s ! r))]"
  "intervals (handle_eviction i s) = intervals s"
  "intervals (handle_url_change u s) = intervals s"
  "intervals (handle_preview_success p v s) = intervals s"
  "intervals (handle_preview_failure p s) = intervals s"
  by (simp_all add: handle_convert_def handle_tick_def handle_download_progress_def
      handle_convert_success_def handle_convert_failure_def handle_eviction_def
      handle_url_change_def handle_preview_success_def handle_preview_failure_def
      close_request_def close_preview_def remove_download_after_delay_def Let_def case_prod_unfold)

lemma now_handlers [handler_simps]:
  "now (handle_convert s) = now s" "now (handle_tick h s) = now s"
  "now (handle_download_progress r l t s) = now s" "now (handle_convert_success r resp s) = now s"
  "now (handle_convert_failure r e s) = now s" "now (handle_eviction i s) = now s"
  "now (handle_url_change u s) = now s" "now (handle_preview_success p v s) = now s"
  "now (handle_preview_failure p s) = now s"
  by (simp_all add: handle_convert_def handle_tick_def handle_download_progress_def
      handle_convert_success_def handle_convert_failure_def handle_eviction_def
      handle_url_change_def handle_preview_success_def handle_preview_failure_def
      close_request_def close_preview_def remove_download_after_delay_def Let_def case_prod_unfold)

lemmas app_eval = init_app_def handle_convert_def handle_tick_def handle_download_progress_def
  close_request_def handle_convert_success_def handle_convert_failure_def handle_eviction_def
  handle_url_change_def close_preview_def handle_preview_success_def handle_preview_failure_def
  remove_download_after_delay_def is_video_url_def js_trim_def is_js_space_def download_id_def
  digit_char_def start_interval_def tick_period_def interval_tick_def artificial_cap_def
  success_delay_def failure_delay_def download_file_name_def error_message_def
  create_download_def new_download_def set_progress_def set_complete_def set_failed_def
  merge_job_def remove_download_def on_download_progress_def transfer_percent_def total_or_100_def
  clear_interval_def classify_def quality_options_def js_nat_string.simps empty_download_def Let_def

section \<open>Properties of the handlers\<close>

text \<open>C10. A blank URL (only white space) is rejected before any job exists: the
  registry, the timers and the requests are unchanged and the validation message is
  shown.\<close>

theorem handle_convert_blank:
  assumes "js_trim (url s) = []"
  shows "downloads (handle_convert s) = downloads s \<and> intervals (handle_convert s) = intervals s \<and>
         requests (handle_convert s) = requests s \<and>
         error (handle_convert s) = ''Please enter a valid YouTube URL''"
  using assms by (simp add: handle_convert_def)

theorem handle_convert_blank_witness:
  "js_trim (url ((init_app ''api'' 7)\<lparr>url := '' ''\<rparr>)) = [] \<and>
   downloads (handle_convert ((init_app ''api'' 7)\<lparr>url := '' ''\<rparr>)) = Map.empty \<and>
   error (handle_convert ((init_app ''api'' 7)\<lparr>url := '' ''\<rparr>)) = ''Please enter a valid YouTube URL''"
proof -
  have h: "js_trim (url ((init_app ''api'' 7)\<lparr>url := '' ''\<rparr>)) = []"
    by (simp add: js_trim_def is_js_space_def)
  show ?thesis using handle_convert_blank [OF h] h by (simp add: init_app_def)
qed

text \<open>C11. When the conversion request resolves, its job is marked complete at 100,
  the file save is triggered with the name taken from the link, an eviction is armed
  3000 ms later, loading ends, and the job's interval is left running.\<close>

theorem handle_convert_success_effects:
  "downloads (handle_convert_success r resp s) (rq_job (requests s ! r)) =
     Some ((spread (downloads s (rq_job (requests s ! r))))\<lparr>dl_progress := Some 100, dl_status := Some Complete\<rparr>) \<and>
   evictions (handle_convert_success r resp s) =
     evictions s @ [\<lparr>ev_job = rq_job (requests s ! r), ev_due = now s + 3000, ev_fired = False\<rparr>] \<and>
   saved (handle_convert_success r resp s) =
     saved s @ [\<lparr>link_href = api_base s @ resp_download_url resp,
                 link_download = download_file_name (api_base s @ resp_download_url resp)\<rparr>] \<and>
   intervals (handle_convert_success r resp s) = intervals s \<and>
   \<not> is_loading (handle_convert_success r resp s)"
  by (simp add: handle_convert_success_def remove_download_after_delay_def close_request_def
      success_delay_def set_complete_same Let_def)

text \<open>C12. When the request is rejected, its interval is cleared, its job is marked
  \<open>error\<close> with the extracted message (progress untouched), an eviction is armed
  5000 ms later, and the message is shown.\<close>

theorem handle_convert_failure_effects:
  "downloads (handle_convert_failure r e s) (rq_job (requests s ! r)) =
     Some ((spread (downloads s (rq_job (requests s ! r))))\<lparr>dl_status := Some Error, dl_error := Some (error_message e)\<rparr>) \<and>
   evictions (handle_convert_failure r e s) =
     evictions s @ [\<lparr>ev_job = rq_job (requests s ! r), ev_due = now s + 5000, ev_fired = False\<rparr>] \<and>
   intervals (handle_convert_failure r e s) =
     (intervals s)[rq_interval (requests s ! r) := clear_interval (intervals s ! rq_interval (requests s ! r))] \<and>
   error (handle_convert_failure r e s) = error_message e \<and>
   \<not> is_loading (handle_convert_failure r e s)"
  by (simp add: handle_convert_failure_def remove_download_after_delay_def close_request_def
      failure_delay_def set_failed_same Let_def)

text \<open>C13. One failure, one message: when the request is rejected, the form's error
  text, the job's error detail and the error toast all carry the same text, which
  is never empty: the server's non-empty \<open>detail\<close>, else the generic axios text,
  else the text for any other exception.\<close>

theorem failure_message_consistent:
  "error (handle_convert_failure r e s) \<noteq> [] \<and>
   dl_error (the (downloads (handle_convert_failure r e s) (rq_job (requests s ! r)))) =
     Some (error (handle_convert_failure r e s)) \<and>
   toast_desc (last (toasts (handle_convert_failure r e s))) = error (handle_convert_failure r e s) \<and>
   error (handle_convert_failure r e s) =
     (case e of AxiosError (Some m) \<Rightarrow> if m = [] then ''Conversion failed'' else m
      | AxiosError None \<Rightarrow> ''Conversion failed''
      | OtherError \<Rightarrow> ''An error occurred during conversion'')"
  by (cases e rule: conv_error.exhaust) (auto simp: handle_convert_failure_def remove_download_after_delay_def
      close_request_def set_failed_same error_message_def js_or_def Let_def split: option.split)

text \<open>C14. An eviction removes exactly its own key, and a later eviction of the same
  key leaves the registry as it is.\<close>

theorem handle_eviction_exact:
  assumes "ev_job (evictions s ! j) = ev_job (evictions s ! i)"
  shows "downloads (handle_eviction i s) = (downloads s)(ev_job (evictions s ! i) := None) \<and>
         downloads (handle_eviction j (handle_eviction i s)) = downloads (handle_eviction i s)"
proof -
  have "ev_job (evictions (handle_eviction i s) ! j) = ev_job (evictions s ! i)"
    using assms by (cases "j = i \<and> i < length (evictions s)") (auto simp: handle_eviction_def Let_def nth_list_update list_update_beyond)
  then show ?thesis by (simp add: handle_eviction_def remove_download_def Let_def)
qed

theorem handle_eviction_exact_witness:
  "downloads (handle_eviction 0 ((init_app ''api'' 0)\<lparr>downloads := [''1'' \<mapsto> new_download ''1'' ''u'' ''u''],
       evictions := [\<lparr>ev_job = ''1'', ev_due = 0, ev_fired = False\<rparr>]\<rparr>)) = Map.empty"
  using handle_eviction_exact [of "(init_app ''api'' 0)\<lparr>downloads := [''1'' \<mapsto> new_download ''1'' ''u'' ''u''],
       evictions := [\<lparr>ev_job = ''1'', ev_due = 0, ev_fired = False\<rparr>]\<rparr>" 0 0]
  by simp

text \<open>C15. The id \<open>Date.now().toString()\<close> reads back as the time stamp it was made
  from, so submissions at different milliseconds get different ids.\<close>

theorem download_id_roundtrip: "parse_nat (download_id t) = Some t"
  by (simp add: download_id_def parse_nat_js_nat_string)

text \<open>C16. The saved file's name is the text after the link's last slash, and
  \<open>audio.mp3\<close> when that text is empty.\<close>

theorem download_file_name_last_segment:
  assumes "CHR ''/'' \<notin> set name"
  shows "download_file_name (link @ ''/'' @ name) = (if name = [] then ''audio.mp3'' else name)"
proof -
  from assms have "\<forall>x \<in> set (rev name). x \<noteq> CHR ''/''" by auto
  then have "takeWhile (\<lambda>x. x \<noteq> CHR ''/'') (rev name @ CHR ''/'' # rev link) = rev name"
    by (simp add: takeWhile_tail)
  then show ?thesis by (simp add: download_file_name_def last_js_split js_or_def)
qed

theorem download_file_name_last_segment_witness:
  "CHR ''/'' \<notin> set ''a.mp3'' \<and> download_file_name (''http://api/files'' @ ''/'' @ ''a.mp3'') = ''a.mp3''"
  using download_file_name_last_segment [of "''a.mp3''" "''http://api/files''"] by simp

end
