(* ===== verification/EventLoop.thy ===== *)
theory EventLoop
  imports Orchestrator
begin

text \<open>
  The single-threaded event loop that interleaves the callbacks of
  \<open>src/src/App.tsx\<close>: user input (the Convert button, the URL input, the
  quality and format selectors), interval ticks, transfer-progress samples, the
  settling of the conversion request, eviction timers, the settling of preview
  lookups, and the passing of time.  Each event is enabled by what the code and the
  browser guarantee (a timer fires only once it is due and while it is armed, a
  request settles once, the Convert button is disabled while \<open>isLoading\<close>, the
  quality selector offers only the values of \<open>qualityOptions\<close>).  Both format
  buttons may be pressed: the MP4 button carries the raw \<open>disabled\<close> attribute,
  whose effect depends on the Chakra \<open>Button\<close>, while the screen's guide tells
  users to pick MP4, so the model allows it (a superset of the runs); \<open>app_step\<close> runs the callback to completion.  \<open>run\<close>
  executes a list of events and is \<open>None\<close> when one of them is not enabled;
  \<open>reachable\<close> is the set of states the loop can reach.  The invariants proved here
  by rule induction over \<open>reachable\<close>: the progress range (C2) and one request in
  flight exactly while loading (C19); those on the closures are in \<open>Closures\<close>.
\<close>

datatype event =
    Convert
  | IntervalFires nat
  | DownloadProgress nat nat "nat option"
  | ConvertResolves nat download_response
  | ConvertRejects nat conv_error
  | EvictionFires nat
  | UrlChange string
  | PreviewResolves nat vinfo
  | PreviewRejects nat
  | SelectQuality string
  | SelectFormat media_format
  | TimePasses ms

fun enabled :: "app \<Rightarrow> event \<Rightarrow> bool" where
  "enabled s Convert \<longleftrightarrow> \<not> is_loading s"
| "enabled s (IntervalFires h) \<longleftrightarrow>
     h < length (intervals s) \<and> iv_live (intervals s ! h) \<and> iv_due (intervals s ! h) \<le> now s"
| "enabled s (DownloadProgress r l t) \<longleftrightarrow> r < length (requests s) \<and> rq_open (requests s ! r)"
| "enabled s (ConvertResolves r resp) \<longleftrightarrow> r < length (requests s) \<and> rq_open (requests s ! r)"
| "enabled s (ConvertRejects r e) \<longleftrightarrow> r < length (requests s) \<and> rq_open (requests s ! r)"
| "enabled s (EvictionFires i) \<longleftrightarrow>
     i < length (evictions s) \<and> \<not> ev_fired (evictions s ! i) \<and> ev_due (evictions s ! i) \<le> now s"
| "enabled s (UrlChange u) \<longleftrightarrow> True"
| "enabled s (PreviewResolves p v) \<longleftrightarrow> p < length (previews s) \<and> pv_open (previews s ! p)"
| "enabled s (PreviewRejects p) \<longleftrightarrow> p < length (previews s) \<and> pv_open (previews s ! p)"
| "enabled s (SelectQuality q) \<longleftrightarrow> q \<in> set (map fst (quality_options (format s)))"
| "enabled s (SelectFormat f) \<longleftrightarrow> True"
| "enabled s (TimePasses d) \<longleftrightarrow> True"

fun app_step :: "app \<Rightarrow> event \<Rightarrow> app" where
  "app_step s Convert = handle_convert s"
| "app_step s (IntervalFires h) = handle_tick h s"
| "app_step s (DownloadProgress r l t) = handle_download_progress r l t s"
| "app_step s (ConvertResolves r resp) = handle_convert_success r resp s"
| "app_step s (ConvertRejects r e) = handle_convert_failure r e s"
| "app_step s (EvictionFires i) = handle_eviction i s"
| "app_step s (UrlChange u) = handle_url_change u s"
| "app_step s (PreviewResolves p v) = handle_preview_success p v s"
| "app_step s (PreviewRejects p) = handle_preview_failure p s"
| "app_step s (SelectQuality q) = s\<lparr>quality := q\<rparr>"
| "app_step s (SelectFormat f) = s\<lparr>format := f\<rparr>"
| "app_step s (TimePasses d) = s\<lparr>now := now s + d\<rparr>"

fun run :: "app \<Rightarrow> event list \<Rightarrow> app option" where
  "run s [] = Some s"
| "run s (e # es) = (if enabled s e then run (app_step s e) es else None)"

inductive reachable :: "app \<Rightarrow> bool" where
  start: "reachable (init_app base t0)"
| step: "reachable s \<Longrightarrow> enabled s e \<Longrightarrow> reachable (app_step s e)"

text \<open>The keys of the registry an event may write: its own job, and no other.\<close>

fun event_keys :: "app \<Rightarrow> event \<Rightarrow> job_id set" where
  "event_keys s Convert = {download_id (now s)}"
| "event_keys s (IntervalFires h) = {iv_job (intervals s ! h)}"
| "event_keys s (DownloadProgress r l t) = {rq_job (requests s ! r)}"
| "event_keys s (ConvertResolves r resp) = {rq_job (requests s ! r)}"
| "event_keys s (ConvertRejects r e) = {rq_job (requests s ! r)}"
| "event_keys s (EvictionFires i) = {ev_job (evictions s ! i)}"
| "event_keys s _ = {}"

text \<open>The number of unsettled conversion requests, and how it agrees with \<open>isLoading\<close>.\<close>

definition open_requests :: "app \<Rightarrow> nat" where
  "open_requests s = length (filter rq_open (requests s))"

definition loading_inv :: "app \<Rightarrow> bool" where
  "loading_inv s \<longleftrightarrow> open_requests s = (if is_loading s then 1 else 0)"

lemma run_reachable: "reachable s \<Longrightarrow> run s es = Some s' \<Longrightarrow> reachable s'"
proof (induction es arbitrary: s)
  case Nil
  then show ?case by simp
next
  case (Cons e es)
  then show ?case by (auto split: if_splits intro: reachable.step)
qed

lemma run_init_reachable: "run (init_app base t0) es = Some s \<Longrightarrow> reachable s"
  by (rule run_reachable [OF reachable.start])

text \<open>C1. Job isolation: a callback changes the registry entry of no job but its
  own; in particular an update for one job never alters another job's record, and
  the writers merge into the current map rather than a stale snapshot.\<close>

theorem downloads_app_step_other:
  "k \<notin> event_keys s e \<Longrightarrow> downloads (app_step s e) k = downloads s k"
  by (cases e) (simp_all add: handler_simps registry_simps interval_tick_other on_download_progress_other)

theorem downloads_app_step_other_witness:
  "''9'' \<notin> event_keys ((init_app ''api'' 5)\<lparr>url := ''u''\<rparr>) Convert \<and>
   downloads (app_step ((init_app ''api'' 5)\<lparr>url := ''u''\<rparr>) Convert) ''9'' = None"
proof -
  have k: "''9'' \<notin> event_keys ((init_app ''api'' 5)\<lparr>url := ''u''\<rparr>) Convert"
    by (simp add: init_app_def download_id_def js_nat_string.simps digit_char_def)
  show ?thesis using downloads_app_step_other [OF k] k by (simp add: init_app_def)
qed

subsection \<open>Progress stays within 0..100\<close>

lemma progress_ok_tick: "progress_ok reg \<Longrightarrow> progress_ok (snd (interval_tick iv reg))"
  by (simp add: interval_tick_def Let_def progress_ok_writers artificial_cap_def)

lemma progress_ok_download_progress:
  assumes "progress_ok reg"
  shows "progress_ok (on_download_progress a k l t reg)"
proof (cases "of_nat a < transfer_percent l t")
  case True
  then have "0 < transfer_percent l t" by (rule order.strict_trans1 [rotated]) simp
  with True assms show ?thesis by (simp add: on_download_progress_forward progress_ok_writers)
next
  case False
  with assms show ?thesis by (simp add: on_download_progress_stale)
qed

lemma progress_ok_app_step: "progress_ok (downloads s) \<Longrightarrow> progress_ok (downloads (app_step s e))"
  by (cases e) (simp_all add: handler_simps progress_ok_writers progress_ok_tick progress_ok_download_progress)

lemma reachable_progress_ok: "reachable s \<Longrightarrow> progress_ok (downloads s)"
proof (induction rule: reachable.induct)
  case (start base t0)
  then show ?case by (simp add: init_app_def progress_ok_empty)
next
  case (step s e)
  from step.IH show ?case by (rule progress_ok_app_step)
qed

text \<open>C2. In every reachable state, every progress value the registry holds lies in
  the range 0..100, whichever interleaving of ticks, samples and settlements led there.\<close>

theorem reachable_progress_bounds:
  assumes "reachable s" and "downloads s k = Some d" and "dl_progress d = Some p"
  shows "0 \<le> p \<and> p \<le> 100"
  using reachable_progress_ok [OF assms(1)] assms(2,3) by (rule progress_okD)

theorem reachable_progress_bounds_witness:
  "reachable (app_step (app_step (init_app ''api'' 5) (UrlChange ''u'')) Convert) \<and>
   downloads (app_step (app_step (init_app ''api'' 5) (UrlChange ''u'')) Convert) ''5'' =
     Some (new_download ''5'' ''u'' ''u'') \<and>
   0 \<le> (0::rat) \<and> (0::rat) \<le> 100"
proof -
  let ?s = "app_step (app_step (init_app ''api'' 5) (UrlChange ''u'')) Convert"
  have r: "reachable ?s"
    by (intro reachable.step reachable.start) (simp_all add: app_eval)
  have d: "downloads ?s ''5'' = Some (new_download ''5'' ''u'' ''u'')"
    by (simp add: app_eval)
  have "dl_progress (new_download ''5'' ''u'' ''u'') = Some 0" by (simp add: new_download_def)
  with reachable_progress_bounds [OF r d] r d show ?thesis by simp
qed

subsection \<open>One conversion at a time\<close>

lemma requests_loading_unchanged:
  "requests (handle_tick h s) = requests s" "is_loading (handle_tick h s) = is_loading s"
  "requests (handle_download_progress r l t s) = requests s" "is_loading (handle_download_progress r l t s) = is_loading s"
  "requests (handle_eviction i s) = requests s" "is_loading (handle_eviction i s) = is_loading s"
  "requests (handle_url_change u s) = requests s" "is_loading (handle_url_change u s) = is_loading s"
  "requests (handle_preview_success p v s) = requests s" "is_loading (handle_preview_success p v s) = is_loading s"
  "requests (handle_preview_failure p s) = requests s" "is_loading (handle_preview_failure p s) = is_loading s"
  by (simp_all add: handle_tick_def handle_download_progress_def handle_eviction_def handle_url_change_def
      handle_preview_success_def handle_preview_failure_def close_preview_def Let_def case_prod_unfold)

lemma requests_settle:
  "requests (handle_convert_success r resp s) = (requests s)[r := (requests s ! r)\<lparr>rq_open := False\<rparr>]"
  "requests (handle_convert_failure r e s) = (requests s)[r := (requests s ! r)\<lparr>rq_open := False\<rparr>]"
  "\<not> is_loading (handle_convert_success r resp s)" "\<not> is_loading (handle_convert_failure r e s)"
  by (simp_all add: handle_convert_success_def handle_convert_failure_def close_request_def
      remove_download_after_delay_def Let_def)

lemma requests_handlers [handler_simps]:
  "requests (handle_convert s) =
     (if js_trim (url s) = [] then requests s
      else requests s @ [\<lparr>rq_job = download_id (now s), rq_interval = length (intervals s), rq_url = url s,
                          rq_quality = quality s, rq_open = True\<rparr>])"
  "requests (handle_convert_success r resp s) = (requests s)[r := (requests s ! r)\<lparr>rq_open := False\<rparr>]"
  "requests (handle_convert_failure r e s) = (requests s)[r := (requests s ! r)\<lparr>rq_open := False\<rparr>]"
  by (simp_all add: handle_convert_def requests_settle Let_def)

lemma form_handlers [handler_simps]:
  "format (handle_convert s) = format s" "quality (handle_convert s) = quality s"
  "format (handle_tick h s) = format s" "quality (handle_tick h s) = quality s"
  "format (handle_download_progress r l t s) = format s" "quality (handle_download_progress r l t s) = quality s"
  "format (handle_convert_success r resp s) = format s" "quality (handle_convert_success r resp s) = quality s"
  "format (handle_convert_failure r e s) = format s" "quality (handle_convert_failure r e s) = quality s"
  "format (handle_eviction i s) = format s" "quality (handle_eviction i s) = quality s"
  "format (handle_url_change u s) = format s" "quality (handle_url_change u s) = quality s"
  "format (handle_preview_success p v s) = format s" "quality (handle_preview_success p v s) = quality s"
  "format (handle_preview_failure p s) = format s" "quality (handle_preview_failure p s) = quality s"
  by (simp_all add: handle_convert_def handle_tick_def handle_download_progress_def
      handle_convert_success_def handle_convert_failure_def handle_eviction_def
      handle_url_change_def handle_preview_success_def handle_preview_failure_def
      close_request_def close_preview_def remove_download_after_delay_def Let_def case_prod_unfold)

lemma notices_handlers:
  "toasts (handle_convert s) = toasts s" "saved (handle_convert s) = saved s"
  "toasts (handle_tick h s) = toasts s" "saved (handle_tick h s) = saved s"
  "toasts (handle_download_progress r l t s) = toasts s" "saved (handle_download_progress r l t s) = saved s"
  "toasts (handle_eviction i s) = toasts s" "saved (handle_eviction i s) = saved s"
  "toasts (handle_url_change u s) = toasts s" "saved (handle_url_change u s) = saved s"
  "toasts (handle_preview_success p v s) = toasts s" "saved (handle_preview_success p v s) = saved s"
  "toasts (handle_preview_failure p s) = toasts s" "saved (handle_preview_failure p s) = saved s"
  "toasts (handle_convert_success r resp s) = toasts s @ [\<lparr>toast_title = ''Success!'',
     toast_desc = ''Your file is being downloaded.'', toast_kind = ToastSuccess\<rparr>]"
  "length (saved (handle_convert_success r resp s)) = Suc (length (saved s))"
  "toasts (handle_convert_failure r e s) =
     toasts s @ [\<lparr>toast_title = ''Error'', toast_desc = error_message e, toast_kind = ToastError\<rparr>]"
  "saved (handle_convert_failure r e s) = saved s"
  by (simp_all add: handle_convert_def handle_tick_def handle_download_progress_def
      handle_convert_success_def handle_convert_failure_def handle_eviction_def
      handle_url_change_def handle_preview_success_def handle_preview_failure_def
      close_request_def close_preview_def remove_download_after_delay_def Let_def case_prod_unfold)

text \<open>Closing an open request when exactly one is open leaves none open.\<close>

lemma loading_inv_settle:
  assumes "loading_inv s" and "r < length (requests s)" and "rq_open (requests s ! r)"
  shows "open_requests (s\<lparr>requests := (requests s)[r := (requests s ! r)\<lparr>rq_open := False\<rparr>]\<rparr>) = 0"
proof -
  have "Suc (length (filter rq_open ((requests s)[r := (requests s ! r)\<lparr>rq_open := False\<rparr>]))) =
        length (filter rq_open (requests s))"
    using assms(2,3) by (intro length_filter_update_off) simp_all
  with assms(1) show ?thesis
    by (auto simp: loading_inv_def open_requests_def split: if_splits)
qed

lemma loading_inv_step:
  assumes "loading_inv s" and "enabled s e"
  shows "loading_inv (app_step s e)"
proof (cases e)
  case Convert
  with assms show ?thesis
    by (auto simp: loading_inv_def open_requests_def handle_convert_def Let_def)
next
  case (ConvertResolves r resp)
  with assms loading_inv_settle [OF assms(1), of r] show ?thesis
    by (simp add: loading_inv_def requests_settle open_requests_def)
next
  case (ConvertRejects r err)
  with assms loading_inv_settle [OF assms(1), of r] show ?thesis
    by (simp add: loading_inv_def requests_settle open_requests_def)
qed (insert assms, simp_all add: loading_inv_def open_requests_def requests_loading_unchanged)

lemma reachable_loading_inv: "reachable s \<Longrightarrow> loading_inv s"
proof (induction rule: reachable.induct)
  case (start base t0)
  then show ?case by (simp add: loading_inv_def open_requests_def init_app_def)
next
  case (step s e)
  then show ?case by (blast intro: loading_inv_step)
qed

text \<open>C19. At most one conversion is in flight: in every reachable state the number
  of unsettled requests is one while \<open>isLoading\<close> holds and zero otherwise, so the
  Convert button's \<open>isLoading\<close> guard is exactly "a request is pending".\<close>

theorem reachable_single_request:
  assumes "reachable s"
  shows "length (filter rq_open (requests s)) = (if is_loading s then 1 else 0)"
  using reachable_loading_inv [OF assms] by (simp add: loading_inv_def open_requests_def)

theorem reachable_single_request_witness:
  "reachable (app_step (app_step (init_app ''api'' 5) (UrlChange ''u'')) Convert) \<and>
   is_loading (app_step (app_step (init_app ''api'' 5) (UrlChange ''u'')) Convert) \<and>
   length (filter rq_open (requests (app_step (app_step (init_app ''api'' 5) (UrlChange ''u'')) Convert))) = 1"
proof -
  let ?s = "app_step (app_step (init_app ''api'' 5) (UrlChange ''u'')) Convert"
  have r: "reachable ?s"
    by (intro reachable.step reachable.start) (simp_all add: app_eval)
  have l: "is_loading ?s" by (simp add: app_eval)
  from reachable_single_request [OF r] r l show ?thesis by simp
qed

end
