(* ===== verification/Closures.thy ===== *)
theory Closures
  imports EventLoop
begin

text \<open>
  Invariants and progress properties of the closures that the handlers of
  \<open>src/src/App.tsx\<close> create, over the event loop of \<open>EventLoop\<close>: the
  well-formedness \<open>wf_app\<close> of intervals and requests (C20), on which the timer
  properties rest: only a rejection disarms an interval (C21), an armed interval
  fires for ever (C22), and an entry marked \<open>error\<close> keeps its value until
  evicted while ids are distinct (C23); toasts and saved files match the
  settlements (C31).  \<open>tick_round h\<close> is one period of interval \<open>h\<close> (time
  passes, the interval fires) and \<open>tick_round_step\<close> computes it in any reachable
  state where the interval is armed.
\<close>

text \<open>Well-formedness of the closures the handlers create.\<close>

definition wf_app :: "app \<Rightarrow> bool" where
  "wf_app s \<longleftrightarrow>
     length (requests s) = length (intervals s) \<and>
     quality s \<in> set (map fst (quality_options Mp3)) \<and>
     (\<forall>r < length (requests s).
        rq_interval (requests s ! r) = r \<and> iv_job (intervals s ! r) = rq_job (requests s ! r) \<and>
        (rq_open (requests s ! r) \<longrightarrow> iv_live (intervals s ! r)) \<and>
        rq_quality (requests s ! r) \<in> set (map fst (quality_options Mp3))) \<and>
     (\<forall>h < length (intervals s). iv_due (intervals s ! h) \<le> now s + tick_period)"

text \<open>A job whose timers and requests have all been settled.\<close>

definition job_settled :: "app \<Rightarrow> job_id \<Rightarrow> bool" where
  "job_settled s k \<longleftrightarrow>
     (\<forall>h < length (intervals s). iv_job (intervals s ! h) = k \<longrightarrow> \<not> iv_live (intervals s ! h)) \<and>
     (\<forall>r < length (requests s). rq_job (requests s ! r) = k \<longrightarrow> \<not> rq_open (requests s ! r))"

text \<open>Every settled conversion has shown one toast, and every success toast
  came with one file save.\<close>

definition notices_ok :: "app \<Rightarrow> bool" where
  "notices_ok s \<longleftrightarrow>
     length (toasts s) = length (filter (\<lambda>r. \<not> rq_open r) (requests s)) \<and>
     length (filter (\<lambda>t. toast_kind t = ToastSuccess) (toasts s)) = length (saved s)"

text \<open>One period of waiting followed by a run of interval \<open>h\<close>.\<close>

definition tick_round :: "nat \<Rightarrow> event list" where
  "tick_round h = [TimePasses tick_period, IntervalFires h]"

primrec tick_rounds :: "nat \<Rightarrow> nat \<Rightarrow> event list" where
  "tick_rounds 0 h = []"
| "tick_rounds (Suc n) h = tick_round h @ tick_rounds n h"

text \<open>Inputs of the witnesses below.\<close>

definition run_one :: "event list" where
  "run_one = [UrlChange ''u'', Convert]"

definition resp_ok :: download_response where
  "resp_ok = \<lparr>resp_message = ''ok'', resp_download_url = ''/f.mp3'', resp_thumbnail_url = [],
     resp_debug_info = []\<rparr>"

definition run_pending :: "event list" where
  "run_pending = [UrlChange ''u'', Convert, TimePasses 10]"

definition run_resolved :: "event list" where
  "run_resolved = [UrlChange ''u'', Convert, ConvertResolves 0 resp_ok]"

subsection \<open>Well-formed closures\<close>

lemma wf_app_init: "wf_app (init_app base t0)"
  by (simp add: wf_app_def init_app_def quality_options_def)

lemma wf_app_step:
  assumes "wf_app s" and "enabled s e"
  shows "wf_app (app_step s e)"
proof (cases e)
  case Convert
  with assms show ?thesis
    by (auto simp: wf_app_def handler_simps requests_handlers start_interval_def nth_append)
next
  case (IntervalFires h)
  with assms show ?thesis
    by (auto simp: wf_app_def handler_simps requests_loading_unchanged nth_list_update)
next
  case (ConvertResolves r resp)
  with assms show ?thesis
    by (auto simp: wf_app_def handler_simps requests_handlers nth_list_update)
next
  case (ConvertRejects r err)
  with assms show ?thesis
    by (auto simp: wf_app_def handler_simps requests_handlers nth_list_update clear_interval_def)
next
  case (SelectQuality q)
  with assms show ?thesis by (auto simp: wf_app_def quality_options_def split: if_splits)
next
  case (TimePasses d)
  with assms show ?thesis by (auto simp: wf_app_def)
qed (insert assms, simp_all add: wf_app_def handler_simps requests_loading_unchanged)

lemma reachable_wf_app: "reachable s \<Longrightarrow> wf_app s"
proof (induction rule: reachable.induct)
  case (start base t0)
  then show ?case by (rule wf_app_init)
next
  case (step s e)
  then show ?case by (blast intro: wf_app_step)
qed

lemma run_append: "run s (xs @ ys) = (case run s xs of None \<Rightarrow> None | Some t \<Rightarrow> run t ys)"
  by (induction xs arbitrary: s) auto

text \<open>C20. Well-formedness of the closures: in every reachable state request \<open>r\<close>
  was made together with interval \<open>r\<close> for the same job, an unsettled request's interval
  is armed, every interval is due at most one period ahead, and every quality that
  is selected or was submitted is a value of \<open>qualityOptions\<close> (the same three
  values for either format, whichever format button was pressed).\<close>

theorem reachable_wf:
  assumes "reachable s" and "r < length (requests s)"
  shows "r < length (intervals s) \<and> rq_interval (requests s ! r) = r \<and>
         iv_job (intervals s ! r) = rq_job (requests s ! r) \<and>
         (rq_open (requests s ! r) \<longrightarrow> iv_live (intervals s ! r)) \<and>
         rq_quality (requests s ! r) \<in> {''best'', ''medium'', ''worst''} \<and>
         iv_due (intervals s ! r) \<le> now s + tick_period \<and>
         quality s \<in> {''best'', ''medium'', ''worst''}"
  using reachable_wf_app [OF assms(1)] assms(2) by (auto simp: wf_app_def quality_options_def)

theorem reachable_wf_witness:
  "reachable (the (run (init_app ''api'' 5) run_one)) \<and> 0 < length (requests (the (run (init_app ''api'' 5) run_one))) \<and>
   rq_quality (requests (the (run (init_app ''api'' 5) run_one)) ! 0) \<in> {''best'', ''medium'', ''worst''}"
proof -
  have r: "run (init_app ''api'' 5) run_one = Some (the (run (init_app ''api'' 5) run_one))"
    by (simp add: run_one_def app_eval)
  have re: "reachable (the (run (init_app ''api'' 5) run_one))" using run_init_reachable [OF r] .
  have l: "0 < length (requests (the (run (init_app ''api'' 5) run_one)))"
    by (simp add: run_one_def app_eval)
  from reachable_wf [OF re l] re l show ?thesis by simp
qed

subsection \<open>Armed timers\<close>

text \<open>C21. Only a rejection disarms an interval: once request \<open>r\<close> is settled, no
  event changes whether interval \<open>r\<close> is armed.  Since the success path settles the
  request without clearing (C11), a resolved job's interval stays armed for ever.\<close>

theorem settled_interval_stable:
  assumes "reachable s" and "r < length (requests s)" and "\<not> rq_open (requests s ! r)"
    and "enabled s e"
  shows "iv_live (intervals (app_step s e) ! r) = iv_live (intervals s ! r)"
proof -
  have wf: "wf_app s" using assms(1) by (rule reachable_wf_app)
  then have len: "r < length (intervals s)" using assms(2) by (simp add: wf_app_def)
  show ?thesis
  proof (cases e)
    case Convert
    with len show ?thesis by (simp add: handler_simps nth_append)
  next
    case (IntervalFires h)
    with len show ?thesis by (cases "h = r") (simp_all add: handler_simps)
  next
    case (ConvertRejects q err)
    with assms(3,4) have "q \<noteq> r" by auto
    moreover have "rq_interval (requests s ! q) = q" using wf ConvertRejects assms(4) by (simp add: wf_app_def)
    ultimately show ?thesis using ConvertRejects by (simp add: handler_simps)
  qed (simp_all add: handler_simps)
qed

theorem settled_interval_stable_witness:
  "reachable (the (run (init_app ''api'' 5) run_resolved)) \<and>
   \<not> rq_open (requests (the (run (init_app ''api'' 5) run_resolved)) ! 0) \<and>
   iv_live (intervals (app_step (the (run (init_app ''api'' 5) run_resolved)) (TimePasses 100)) ! 0)"
proof -
  let ?s = "the (run (init_app ''api'' 5) run_resolved)"
  have r: "run (init_app ''api'' 5) run_resolved = Some ?s"
    by (simp add: run_resolved_def resp_ok_def app_eval)
  have re: "reachable ?s" using run_init_reachable [OF r] .
  have l: "0 < length (requests ?s)" and c: "\<not> rq_open (requests ?s ! 0)"
    and v: "iv_live (intervals ?s ! 0)"
    by (simp_all add: run_resolved_def resp_ok_def app_eval)
  from settled_interval_stable [OF re l c, of "TimePasses 100"] re c v show ?thesis by simp
qed

lemma tick_round_step:
  assumes "reachable s" and "h < length (intervals s)" and "iv_live (intervals s ! h)"
  shows "run s (tick_round h) = Some (handle_tick h (s\<lparr>now := now s + tick_period\<rparr>))"
proof -
  have "iv_due (intervals s ! h) \<le> now s + tick_period"
    using reachable_wf_app [OF assms(1)] assms(2) by (simp add: wf_app_def)
  with assms(2,3) show ?thesis by (simp add: tick_round_def)
qed

text \<open>C22. An armed interval fires for ever: from any reachable state, for every
  \<open>n\<close>, letting one period pass and running the callback \<open>n\<close> times is a run of the
  loop, the interval stays armed and its counter has grown by \<open>n\<close>.\<close>

theorem interval_fires_forever:
  assumes "reachable s" and "h < length (intervals s)" and "iv_live (intervals s ! h)"
  shows "\<exists>s'. run s (concat (replicate n (tick_round h))) = Some s' \<and>
           h < length (intervals s') \<and> iv_live (intervals s' ! h) \<and>
           iv_count (intervals s' ! h) = iv_count (intervals s ! h) + n"
  using assms
proof (induction n arbitrary: s)
  case 0
  then show ?case by simp
next
  case (Suc n)
  let ?t = "handle_tick h (s\<lparr>now := now s + tick_period\<rparr>)"
  have run1: "run s (tick_round h) = Some ?t" using Suc.prems by (rule tick_round_step)
  have "reachable ?t" using run_reachable [OF Suc.prems(1) run1] .
  moreover have "h < length (intervals ?t)" "iv_live (intervals ?t ! h)"
    using Suc.prems(2,3) by (simp_all add: handler_simps)
  moreover have cnt: "iv_count (intervals ?t ! h) = Suc (iv_count (intervals s ! h))"
    using Suc.prems(2) by (simp add: handler_simps)
  ultimately obtain s' where "run ?t (concat (replicate n (tick_round h))) = Some s'"
    "h < length (intervals s')" "iv_live (intervals s' ! h)"
    "iv_count (intervals s' ! h) = iv_count (intervals ?t ! h) + n"
    using Suc.IH by blast
  with run1 cnt show ?case by (auto simp: run_append)
qed

theorem interval_fires_forever_witness:
  "reachable (the (run (init_app ''api'' 5) run_resolved)) \<and>
   0 < length (intervals (the (run (init_app ''api'' 5) run_resolved))) \<and>
   iv_live (intervals (the (run (init_app ''api'' 5) run_resolved)) ! 0) \<and>
   (\<exists>s'. run (the (run (init_app ''api'' 5) run_resolved)) (concat (replicate 200 (tick_round 0))) = Some s' \<and>
        iv_live (intervals s' ! 0) \<and> iv_count (intervals s' ! 0) = 200)"
proof -
  let ?s = "the (run (init_app ''api'' 5) run_resolved)"
  have r: "run (init_app ''api'' 5) run_resolved = Some ?s"
    by (simp add: run_resolved_def resp_ok_def app_eval)
  have re: "reachable ?s" using run_init_reachable [OF r] .
  have l: "0 < length (intervals ?s)" and v: "iv_live (intervals ?s ! 0)"
    and c: "iv_count (intervals ?s ! 0) = 0"
    by (simp_all add: run_resolved_def resp_ok_def app_eval)
  from interval_fires_forever [OF re l v, of 200] re l v c show ?thesis by auto
qed

subsection \<open>The error status is final\<close>

lemma job_settled_step:
  assumes "job_settled s (download_id t)" and "t < now s" and "enabled s e"
  shows "job_settled (app_step s e) (download_id t) \<and> t < now (app_step s e) \<and>
         downloads (app_step s e) (download_id t) \<in> {downloads s (download_id t), None}"
proof -
  have new: "download_id (now s) \<noteq> download_id t"
    using assms(2) by (simp add: download_id_def js_nat_string_inject)
  show ?thesis
  proof (cases e)
    case Convert
    with assms new show ?thesis
      by (auto simp: job_settled_def handler_simps requests_handlers registry_simps nth_append start_interval_def)
  next
    case (IntervalFires h)
    with assms have "iv_job (intervals s ! h) \<noteq> download_id t" by (auto simp: job_settled_def)
    with IntervalFires assms show ?thesis
      by (auto simp: job_settled_def handler_simps requests_loading_unchanged interval_tick_other nth_list_update)
  next
    case (DownloadProgress r l tt)
    with assms have "rq_job (requests s ! r) \<noteq> download_id t" by (auto simp: job_settled_def)
    with DownloadProgress assms show ?thesis
      by (auto simp: job_settled_def handler_simps requests_loading_unchanged on_download_progress_other)
  next
    case (ConvertResolves r resp)
    with assms have "rq_job (requests s ! r) \<noteq> download_id t" by (auto simp: job_settled_def)
    with ConvertResolves assms show ?thesis
      by (auto simp: job_settled_def handler_simps requests_handlers registry_simps nth_list_update)
  next
    case (ConvertRejects r err)
    with assms have "rq_job (requests s ! r) \<noteq> download_id t" by (auto simp: job_settled_def)
    with ConvertRejects assms show ?thesis
      by (auto simp: job_settled_def handler_simps requests_handlers registry_simps nth_list_update_if clear_interval_def)
  next
    case (EvictionFires i)
    with assms show ?thesis
      by (auto simp: job_settled_def handler_simps requests_loading_unchanged registry_simps remove_download_def)
  qed (insert assms, auto simp: job_settled_def handler_simps requests_loading_unchanged)
qed

lemma job_settled_run:
  assumes "job_settled s (download_id t)" and "t < now s" and "run s es = Some s'"
  shows "downloads s' (download_id t) \<in> {downloads s (download_id t), None}"
  using assms
proof (induction es arbitrary: s)
  case Nil
  then show ?case by simp
next
  case (Cons e es)
  then have en: "enabled s e" and r: "run (app_step s e) es = Some s'" by (simp_all split: if_splits)
  from job_settled_step [OF Cons.prems(1,2) en] Cons.IH [OF _ _ r] show ?case by auto
qed

lemma rejection_settles_job:
  assumes "reachable s" and "distinct (map rq_job (requests s))" and "enabled s (ConvertRejects r err)"
  shows "job_settled (app_step s (ConvertRejects r err)) (rq_job (requests s ! r))"
proof -
  have wf: "wf_app s" using assms(1) by (rule reachable_wf_app)
  have r: "r < length (requests s)" using assms(3) by simp
  have same: "q = r" if "q < length (requests s)" "rq_job (requests s ! q) = rq_job (requests s ! r)" for q
    using assms(2) that r by (metis distinct_conv_nth length_map nth_map)
  show ?thesis
    using wf r same by (auto simp: job_settled_def wf_app_def handler_simps requests_handlers
        nth_list_update clear_interval_def)
qed

text \<open>C23. The status \<open>error\<close> is final while ids are distinct: once a request is
  rejected, whatever the loop runs afterwards, its job's entry keeps the value the
  rejection wrote until the eviction removes it (contrast C7 for \<open>complete\<close>).
  Distinct ids fail when two submissions fall in one millisecond.\<close>

theorem error_final:
  assumes "reachable s" and "distinct (map rq_job (requests s))"
    and "enabled s (ConvertRejects r err)" and "rq_job (requests s ! r) = download_id t"
    and "t < now s" and "run (app_step s (ConvertRejects r err)) es = Some s'"
  shows "downloads s' (download_id t) \<in> {downloads (app_step s (ConvertRejects r err)) (download_id t), None}"
proof -
  have "job_settled (app_step s (ConvertRejects r err)) (download_id t)"
    using rejection_settles_job [OF assms(1-3)] assms(4) by simp
  moreover have "t < now (app_step s (ConvertRejects r err))" using assms(5) by (simp add: handler_simps)
  ultimately show ?thesis using assms(6) by (rule job_settled_run)
qed

theorem error_final_witness:
  "reachable (the (run (init_app ''api'' 5) run_pending)) \<and>
   distinct (map rq_job (requests (the (run (init_app ''api'' 5) run_pending)))) \<and>
   enabled (the (run (init_app ''api'' 5) run_pending)) (ConvertRejects 0 OtherError) \<and>
   rq_job (requests (the (run (init_app ''api'' 5) run_pending)) ! 0) = download_id 5 \<and>
   5 < now (the (run (init_app ''api'' 5) run_pending)) \<and>
   run (app_step (the (run (init_app ''api'' 5) run_pending)) (ConvertRejects 0 OtherError))
       [TimePasses 100, DownloadProgress 0 10 None] = None \<and>
   downloads (the (run (app_step (the (run (init_app ''api'' 5) run_pending)) (ConvertRejects 0 OtherError))
       [TimePasses 100])) (download_id 5) \<in>
     {downloads (app_step (the (run (init_app ''api'' 5) run_pending)) (ConvertRejects 0 OtherError)) (download_id 5), None}"
proof -
  let ?s = "the (run (init_app ''api'' 5) run_pending)"
  let ?s1 = "app_step ?s (ConvertRejects 0 OtherError)"
  have r: "run (init_app ''api'' 5) run_pending = Some ?s" by (simp add: run_pending_def app_eval)
  have re: "reachable ?s" using run_init_reachable [OF r] .
  have facts: "distinct (map rq_job (requests ?s))" "enabled ?s (ConvertRejects 0 OtherError)"
    "rq_job (requests ?s ! 0) = download_id 5" "5 < now ?s"
    by (simp_all add: run_pending_def app_eval)
  have r2: "run ?s1 [TimePasses 100] = Some (the (run ?s1 [TimePasses 100]))"
    "run ?s1 [TimePasses 100, DownloadProgress 0 10 None] = None"
    by (simp_all add: run_pending_def app_eval)
  from error_final [OF re facts r2(1)] re facts r2(2) show ?thesis by simp
qed

subsection \<open>Notifications\<close>

lemma notices_ok_step:
  assumes "notices_ok s" and "enabled s e"
  shows "notices_ok (app_step s e)"
proof (cases e)
  case Convert
  with assms show ?thesis by (simp add: notices_ok_def notices_handlers requests_handlers)
next
  case (ConvertResolves r resp)
  with assms show ?thesis
    by (simp add: notices_ok_def notices_handlers requests_handlers length_filter_update_on)
next
  case (ConvertRejects r err)
  with assms show ?thesis
    by (simp add: notices_ok_def notices_handlers requests_handlers length_filter_update_on)
qed (insert assms, simp_all add: notices_ok_def notices_handlers requests_loading_unchanged)

lemma reachable_notices_ok: "reachable s \<Longrightarrow> notices_ok s"
proof (induction rule: reachable.induct)
  case (start base t0)
  then show ?case by (simp add: notices_ok_def init_app_def)
next
  case (step s e)
  then show ?case by (blast intro: notices_ok_step)
qed

text \<open>C31. Notifications match settlements: in every reachable state the number of
  toasts is the number of settled conversion requests, and the number of success
  toasts is the number of files saved.\<close>

theorem reachable_notices:
  assumes "reachable s"
  shows "length (toasts s) = length (filter (\<lambda>r. \<not> rq_open r) (requests s)) \<and>
         length (filter (\<lambda>t. toast_kind t = ToastSuccess) (toasts s)) = length (saved s)"
  using reachable_notices_ok [OF assms] by (simp add: notices_ok_def)

theorem reachable_notices_witness:
  "reachable (the (run (init_app ''api'' 5) run_resolved)) \<and>
   length (toasts (the (run (init_app ''api'' 5) run_resolved))) = 1 \<and>
   length (saved (the (run (init_app ''api'' 5) run_resolved))) = 1"
proof -
  let ?s = "the (run (init_app ''api'' 5) run_resolved)"
  have r: "run (init_app ''api'' 5) run_resolved = Some ?s"
    by (simp add: run_resolved_def resp_ok_def app_eval)
  have re: "reachable ?s" using run_init_reachable [OF r] .
  have q: "length (filter (\<lambda>r. \<not> rq_open r) (requests ?s)) = 1"
    and k: "length (filter (\<lambda>t. toast_kind t = ToastSuccess) (toasts ?s)) = 1"
    by (simp_all add: run_resolved_def resp_ok_def app_eval)
  from reachable_notices [OF re] re q k show ?thesis by simp
qed

lemma tick_rounds_numeral: "tick_rounds (numeral k) h = tick_round h @ tick_rounds (pred_numeral k) h"
  by (simp add: numeral_eq_Suc)

end
