(* ===== verification/View.thy ===== *)
theory View
  imports Closures
begin

text \<open>
  The view functions of \<open>src/src/App.tsx\<close> that carry logic: the job card of
  \<open>ActiveDownloads\<close> (title, bar colour and animation, status label and its colour,
  the percentage and its colour), the visibility of the job list, of the error text,
  of the preview skeleton and of the preview card, the \<open>m:ss\<close> duration of the
  preview card, and the styles of the two format buttons and the label of the
  Convert button.  Each is a function of the state; layout and static text are
  not modelled.  The colour mode of Chakra's \<open>useColorMode\<close> is an input.
\<close>

section \<open>The job card of \<open>ActiveDownloads\<close>\<close>

text \<open>What one card of \<open>Object.values(downloads).map(...)\<close> shows; an absent field
  renders as \<open>undefined\<close>, i.e. \<open>None\<close>.\<close>

record card =
  card_title :: "string option"
  card_value :: "rat option"
  card_scheme :: string
  card_animated :: bool
  card_label :: "string option"
  card_label_color :: "string option"
  card_percent_color :: string

text \<open>\<open>download.title || download.url\<close>.\<close>

definition card_title_text :: "download \<Rightarrow> string option" where
  "card_title_text d = (case dl_title d of Some t \<Rightarrow> if t = [] then dl_url d else Some t | None \<Rightarrow> dl_url d)"

definition progress_scheme :: "download \<Rightarrow> string" where
  "progress_scheme d =
     (if dl_status d = Some Error then ''red'' else if dl_status d = Some Complete then ''green'' else ''blue'')"

definition status_label :: "download \<Rightarrow> string option" where
  "status_label d =
     (if dl_status d = Some Error then dl_error d
      else if dl_status d = Some Preparing then Some ''Preparing download...''
      else if dl_status d = Some Downloading then Some ''Downloading''
      else if dl_status d = Some Converting then Some ''Converting''
      else Some ''Download Complete!'')"

definition label_color :: "download \<Rightarrow> string option" where
  "label_color d =
     (if dl_status d = Some Error then Some ''red.500''
      else if dl_status d = Some Complete then Some ''green.500'' else None)"

definition percent_color :: "download \<Rightarrow> string" where
  "percent_color d =
     (if dl_status d = Some Complete then ''green.500''
      else if dl_status d = Some Error then ''red.500'' else ''blue.500'')"

definition render_card :: "download \<Rightarrow> card" where
  "render_card d = \<lparr>card_title = card_title_text d, card_value = dl_progress d,
     card_scheme = progress_scheme d, card_animated = (dl_status d \<noteq> Some Complete),
     card_label = status_label d, card_label_color = label_color d,
     card_percent_color = percent_color d\<rparr>"

text \<open>\<open>Object.keys(downloads).length > 0\<close>: whether the job list is shown.\<close>

definition show_active_downloads :: "app \<Rightarrow> bool" where
  "show_active_downloads s \<longleftrightarrow> dom (downloads s) \<noteq> {}"

section \<open>The preview area\<close>

definition show_error_text :: "app \<Rightarrow> bool" where
  "show_error_text s \<longleftrightarrow> error s \<noteq> []"

definition show_skeleton :: "app \<Rightarrow> bool" where
  "show_skeleton s \<longleftrightarrow> url s \<noteq> [] \<and> video_info s = None \<and> error s = [] \<and> is_video_info_loading s"

definition show_preview_card :: "app \<Rightarrow> bool" where
  "show_preview_card s \<longleftrightarrow> video_info s \<noteq> None"

text \<open>\<open>Math.floor(duration / 60)\<close>, a colon and \<open>(duration % 60).toString().padStart(2, "0")\<close>
  for a duration of whole seconds.\<close>

definition format_duration :: "nat \<Rightarrow> string" where
  "format_duration d = js_nat_string (d div 60) @ '':'' @ pad_start 2 CHR ''0'' (js_nat_string (d mod 60))"

definition duration_text :: "vinfo \<Rightarrow> string" where
  "duration_text v = ''Duration: '' @ format_duration (vi_duration v)"

text \<open>The reader of an \<open>m:ss\<close> text: minutes, a colon, two digits below 60.\<close>

definition parse_duration :: "string \<Rightarrow> nat option" where
  "parse_duration s =
     (case js_split CHR '':'' s of
        [m, ss] \<Rightarrow>
          (if length ss = 2 then
             (case (parse_nat m, parse_nat ss) of
                (Some a, Some b) \<Rightarrow> if b < 60 then Some (60 * a + b) else None
              | _ \<Rightarrow> None)
           else None)
      | _ \<Rightarrow> None)"

section \<open>The form controls\<close>

datatype color_mode = Light | Dark

record button_style =
  bs_bg :: string
  bs_color :: string
  bs_hover_bg :: string
  bs_shadow :: string

text \<open>The style of the format button for \<open>b\<close> when the selected format is \<open>f\<close>.\<close>

definition format_button :: "media_format \<Rightarrow> media_format \<Rightarrow> color_mode \<Rightarrow> button_style" where
  "format_button b f m =
     \<lparr>bs_bg = (if f = b then (if m = Dark then ''#383838'' else ''white'') else ''transparent''),
      bs_color = (if f = b then (if m = Dark then ''white'' else ''gray.700'')
                  else (if m = Dark then ''gray.400'' else ''gray.500'')),
      bs_hover_bg = (if f = b then (if m = Dark then ''#383838'' else ''white'')
                     else (if m = Dark then ''#383838'' else ''gray.200'')),
      bs_shadow = (if f = b then ''sm'' else ''none'')\<rparr>"

text \<open>The Convert button: \<open>isLoading\<close> shows \<open>loadingText\<close>.\<close>

definition convert_button_text :: "app \<Rightarrow> string" where
  "convert_button_text s = (if is_loading s then ''Converting...'' else ''Convert'')"

text \<open>Inputs of the witnesses below.\<close>

definition run_rejected :: "event list" where
  "run_rejected = [UrlChange ''u'', Convert, ConvertRejects 0 OtherError]"

definition run_preview :: "event list" where
  "run_preview = [UrlChange ''https://youtu.be/a'',
     PreviewResolves 0 \<lparr>vi_title = ''A'', vi_duration = 61, vi_thumbnail = []\<rparr>]"

section \<open>The duration text\<close>

lemma format_duration_split:
  "js_split CHR '':'' (format_duration d) =
     [js_nat_string (d div 60), pad_start 2 CHR ''0'' (js_nat_string (d mod 60))]"
proof -
  have a: "CHR '':'' \<notin> set (js_nat_string n)" for n
    using js_nat_string_digits [of n] is_digit_not_colon by blast
  have b: "CHR '':'' \<notin> set (pad_start 2 CHR ''0'' (js_nat_string n))" for n
    using a [of n] by (auto simp: pad_start_def)
  show ?thesis using a b by (simp add: format_duration_def js_split_append_sep js_split_no_sep)
qed

lemma length_seconds_field: "length (pad_start 2 CHR ''0'' (js_nat_string (d mod 60))) = 2"
proof -
  have "d mod 60 < 100" by simp
  then have "length (js_nat_string (d mod 60)) \<le> 2"
    using length_js_nat_string_small [of "d mod 60"] by (cases "d mod 60 < 10") simp_all
  then show ?thesis by (simp add: length_pad_start)
qed

text \<open>C26. The duration text of the preview card reads back as the duration: the
  minutes, a colon and two digits of seconds below 60.\<close>

theorem format_duration_roundtrip: "parse_duration (format_duration d) = Some d"
  by (simp add: parse_duration_def format_duration_split length_seconds_field parse_nat_js_nat_string
      parse_nat_pad_start)

text \<open>C27. For the videos the service accepts (below an hour), the duration text has
  four or five characters: one or two digits of minutes, a colon, and always two
  digits of seconds.\<close>

theorem format_duration_length:
  assumes "d < 3600"
  shows "length (format_duration d) \<in> {4, 5}"
proof -
  from assms have "d div 60 < 60" by simp
  then have "length (js_nat_string (d div 60)) \<in> {1, 2}"
    using length_js_nat_string_small [of "d div 60"] by (cases "d div 60 < 10") simp_all
  with length_seconds_field [of d] show ?thesis by (auto simp: format_duration_def)
qed

theorem format_duration_length_witness:
  "(3599::nat) < 3600 \<and> length (format_duration 3599) \<in> {4, 5} \<and> format_duration 3599 = ''59:59''"
  using format_duration_length [of 3599]
  by (simp add: format_duration_def pad_start_def js_nat_string.simps digit_char_def)

section \<open>What the cards and the preview area show\<close>

lemma entries_ok_tick: "entries_ok reg \<Longrightarrow> entries_ok (snd (interval_tick iv reg))"
  by (simp add: interval_tick_def Let_def entries_ok_writers)

lemma entries_ok_download_progress:
  "entries_ok reg \<Longrightarrow> entries_ok (on_download_progress a k l t reg)"
  by (simp add: on_download_progress_def Let_def entries_ok_writers)

lemma entries_ok_app_step: "entries_ok (downloads s) \<Longrightarrow> entries_ok (downloads (app_step s e))"
  by (cases e) (simp_all add: handler_simps entries_ok_writers entries_ok_tick entries_ok_download_progress)

lemma reachable_entries_ok: "reachable s \<Longrightarrow> entries_ok (downloads s)"
proof (induction rule: reachable.induct)
  case (start base t0)
  then show ?case by (simp add: init_app_def entries_ok_def)
next
  case (step s e)
  from step.IH show ?case by (rule entries_ok_app_step)
qed

text \<open>C24. In every reachable state each job card shows a status label (an entry marked
  \<open>error\<close> always has a message) and a green card always shows 100.\<close>

theorem reachable_card_terminal:
  assumes "reachable s" and "downloads s k = Some d"
  shows "card_label (render_card d) \<noteq> None \<and>
         (card_scheme (render_card d) = ''green'' \<longrightarrow> card_value (render_card d) = Some 100)"
proof -
  have "entry_ok d" using reachable_entries_ok [OF assms(1)] assms(2) by (simp add: entries_ok_def)
  then show ?thesis by (auto simp: entry_ok_def render_card_def status_label_def progress_scheme_def)
qed

text \<open>C25. The three colour ternaries of a card agree although they test the statuses
  in different orders: the percentage colour is the label colour (blue when the label
  has none), the label colour is the bar's colour scheme at shade 500, and the bar is
  animated exactly when it is not green.\<close>

theorem card_colors_agree:
  "card_percent_color (render_card d) =
     (case card_label_color (render_card d) of Some c \<Rightarrow> c | None \<Rightarrow> ''blue.500'') \<and>
   card_label_color (render_card d) =
     (if card_scheme (render_card d) = ''blue'' then None else Some (card_scheme (render_card d) @ ''.500'')) \<and>
   card_animated (render_card d) = (card_scheme (render_card d) \<noteq> ''green'')"
  by (simp add: render_card_def percent_color_def label_color_def progress_scheme_def)

lemma preview_inv_step:
  assumes "is_video_info_loading s \<longrightarrow> video_info s = None"
  shows "is_video_info_loading (app_step s e) \<longrightarrow> video_info (app_step s e) = None"
  using assms
  by (cases e) (simp_all add: handle_convert_def handle_tick_def handle_download_progress_def
      handle_convert_success_def handle_convert_failure_def handle_eviction_def
      handle_url_change_def handle_preview_success_def handle_preview_failure_def
      close_request_def close_preview_def remove_download_after_delay_def Let_def case_prod_unfold)

lemma reachable_preview_inv: "reachable s \<Longrightarrow> is_video_info_loading s \<longrightarrow> video_info s = None"
proof (induction rule: reachable.induct)
  case (start base t0)
  then show ?case by (simp add: init_app_def)
next
  case (step s e)
  from step.IH show ?case by (rule preview_inv_step)
qed

text \<open>C28. The preview card is never shown while a lookup has the loading flag set, so
  the skeleton and the card are never on screen together.\<close>

theorem reachable_preview_card_settled:
  assumes "reachable s" and "show_preview_card s"
  shows "\<not> is_video_info_loading s \<and> \<not> show_skeleton s"
  using reachable_preview_inv [OF assms(1)] assms(2) by (auto simp: show_preview_card_def show_skeleton_def)

theorem reachable_card_terminal_witness:
  "reachable (the (run (init_app ''api'' 5) run_rejected)) \<and>
   downloads (the (run (init_app ''api'' 5) run_rejected)) ''5'' =
     Some (the (downloads (the (run (init_app ''api'' 5) run_rejected)) ''5'')) \<and>
   card_label (render_card (the (downloads (the (run (init_app ''api'' 5) run_rejected)) ''5''))) =
     Some ''An error occurred during conversion''"
proof -
  let ?s = "the (run (init_app ''api'' 5) run_rejected)"
  have r: "run (init_app ''api'' 5) run_rejected = Some ?s" by (simp add: run_rejected_def app_eval)
  have re: "reachable ?s" using run_init_reachable [OF r] .
  have d: "downloads ?s ''5'' = Some (the (downloads ?s ''5''))"
    and l: "card_label (render_card (the (downloads ?s ''5''))) = Some ''An error occurred during conversion''"
    by (simp_all add: run_rejected_def app_eval render_card_def status_label_def)
  from reachable_card_terminal [OF re d] re d l show ?thesis by simp
qed

theorem reachable_preview_card_settled_witness:
  "reachable (the (run (init_app ''api'' 5) run_preview)) \<and>
   show_preview_card (the (run (init_app ''api'' 5) run_preview)) \<and>
   \<not> is_video_info_loading (the (run (init_app ''api'' 5) run_preview))"
proof -
  let ?s = "the (run (init_app ''api'' 5) run_preview)"
  have r: "run (init_app ''api'' 5) run_preview = Some ?s" by (simp add: run_preview_def app_eval)
  have re: "reachable ?s" using run_init_reachable [OF r] .
  have c: "show_preview_card ?s" by (simp add: run_preview_def app_eval show_preview_card_def)
  from reachable_preview_card_settled [OF re c] re c show ?thesis by simp
qed

end
