(* ===== verification/Legacy.thy ===== *)
theory Legacy
  imports View
begin

text \<open>
  The earlier converter screen, \<open>src/src/components/Old.tsx\<close>: the same form and
  the same request, without job tracking, progress or previews.  Its state is the
  record \<open>old_app\<close> (its \<open>useState\<close> hooks); its handlers are the URL input, the
  Convert handler cut at its \<open>await\<close>, and the two settlements with the
  \<open>finally\<close>.  The abstraction \<open>abs_app\<close> forgets what the current screen adds;
  the refinement theorem says that the current screen's handlers, seen through it,
  are the old screen's handlers.  The old screen's inputs are the events
  \<open>old_event\<close> with their enabling conditions \<open>old_enabled\<close> (\<open>isLoading\<close> on
  Convert, the quality options; either format, as on the current screen), executed by
  \<open>old_run\<close>; \<open>abs_event\<close> maps the current screen's events onto them, and the
  runs of the current screen project onto runs of the old one.  The form's view
  logic of both screens is compared through \<open>abs_app\<close>.
\<close>

record old_app =
  o_api_base :: string
  o_format :: media_format
  o_url :: string
  o_is_loading :: bool
  o_error :: string
  o_quality :: string
  o_saved :: "saved_link list"
  o_toasts :: "toast list"

definition old_init :: "string \<Rightarrow> old_app" where
  "old_init base = \<lparr>o_api_base = base, o_format = Mp3, o_url = [], o_is_loading = False,
     o_error = [], o_quality = ''best'', o_saved = [], o_toasts = []\<rparr>"

text \<open>\<open>qualityOptions\<close> of the old screen.\<close>

definition old_quality_options :: "media_format \<Rightarrow> (string \<times> string) list" where
  "old_quality_options f =
     (if f = Mp3 then [(''best'', ''High Quality''), (''medium'', ''Medium Quality''), (''worst'', ''Low Quality'')]
      else [(''best'', ''Best Quality''), (''medium'', ''Medium Quality''), (''worst'', ''Low Quality'')])"

text \<open>\<open>onChange={(e) => setUrl(e.target.value)}\<close>.\<close>

definition old_url_input :: "string \<Rightarrow> old_app \<Rightarrow> old_app" where
  "old_url_input u s = s\<lparr>o_url := u\<rparr>"

text \<open>\<open>handleConvert\<close> up to its \<open>await axios.post\<close>.\<close>

definition old_handle_convert :: "old_app \<Rightarrow> old_app" where
  "old_handle_convert s =
     (if js_trim (o_url s) = [] then s\<lparr>o_error := ''Please enter a valid YouTube URL''\<rparr>
      else s\<lparr>o_is_loading := True, o_error := []\<rparr>)"

definition old_convert_success :: "download_response \<Rightarrow> old_app \<Rightarrow> old_app" where
  "old_convert_success resp s =
     (let link = o_api_base s @ resp_download_url resp
      in s\<lparr>o_saved := o_saved s @ [\<lparr>link_href = link, link_download = download_file_name link\<rparr>],
           o_url := [],
           o_toasts := o_toasts s @ [\<lparr>toast_title = ''Success!'',
                                       toast_desc = ''Your file is being downloaded.'',
                                       toast_kind = ToastSuccess\<rparr>],
           o_is_loading := False\<rparr>)"

definition old_convert_failure :: "conv_error \<Rightarrow> old_app \<Rightarrow> old_app" where
  "old_convert_failure e s =
     (let msg = error_message e
      in s\<lparr>o_error := msg,
           o_toasts := o_toasts s @ [\<lparr>toast_title = ''Error'', toast_desc = msg, toast_kind = ToastError\<rparr>],
           o_is_loading := False\<rparr>)"

text \<open>The user's and the network's events on the old screen, and when each can
  happen: Convert only while not loading (\<open>isLoading\<close> on the button), a
  settlement only while the one request is pending, a quality only from the
  options, and either format button (the MP4 button's raw \<open>disabled\<close> attribute is
  not relied on, as in \<open>EventLoop\<close>).\<close>

datatype old_event =
    OConvert
  | OResolves download_response
  | ORejects conv_error
  | OUrlInput string
  | OSelectQuality string
  | OSelectFormat media_format

fun old_enabled :: "old_app \<Rightarrow> old_event \<Rightarrow> bool" where
  "old_enabled s OConvert \<longleftrightarrow> \<not> o_is_loading s"
| "old_enabled s (OResolves resp) \<longleftrightarrow> o_is_loading s"
| "old_enabled s (ORejects e) \<longleftrightarrow> o_is_loading s"
| "old_enabled s (OUrlInput u) \<longleftrightarrow> True"
| "old_enabled s (OSelectQuality q) \<longleftrightarrow> q \<in> set (map fst (old_quality_options (o_format s)))"
| "old_enabled s (OSelectFormat f) \<longleftrightarrow> True"

fun old_step :: "old_app \<Rightarrow> old_event \<Rightarrow> old_app" where
  "old_step s OConvert = old_handle_convert s"
| "old_step s (OResolves resp) = old_convert_success resp s"
| "old_step s (ORejects e) = old_convert_failure e s"
| "old_step s (OUrlInput u) = old_url_input u s"
| "old_step s (OSelectQuality q) = s\<lparr>o_quality := q\<rparr>"
| "old_step s (OSelectFormat f) = s\<lparr>o_format := f\<rparr>"

fun old_run :: "old_app \<Rightarrow> old_event list \<Rightarrow> old_app option" where
  "old_run s [] = Some s"
| "old_run s (e # es) = (if old_enabled s e then old_run (old_step s e) es else None)"

text \<open>The style of an old format button (the same tests as the current one, other colours).\<close>

definition old_format_button :: "media_format \<Rightarrow> media_format \<Rightarrow> color_mode \<Rightarrow> button_style" where
  "old_format_button b f m =
     \<lparr>bs_bg = (if f = b then (if m = Dark then ''gray.700'' else ''white'') else ''transparent''),
      bs_color = (if f = b then (if m = Dark then ''white'' else ''gray.700'')
                  else (if m = Dark then ''gray.300'' else ''gray.500'')),
      bs_hover_bg = (if f = b then (if m = Dark then ''gray.700'' else ''white'')
                     else (if m = Dark then ''gray.700'' else ''gray.200'')),
      bs_shadow = (if f = b then ''sm'' else ''none'')\<rparr>"

definition old_convert_button_text :: "old_app \<Rightarrow> string" where
  "old_convert_button_text s = (if o_is_loading s then ''Converting...'' else ''Convert'')"

definition old_show_error_text :: "old_app \<Rightarrow> bool" where
  "old_show_error_text s \<longleftrightarrow> o_error s \<noteq> []"

text \<open>What the old screen can observe of the current one.\<close>

definition abs_app :: "app \<Rightarrow> old_app" where
  "abs_app s = \<lparr>o_api_base = api_base s, o_format = format s, o_url = url s,
     o_is_loading = is_loading s, o_error = error s, o_quality = quality s,
     o_saved = saved s, o_toasts = toasts s\<rparr>"

text \<open>The old screen's event for an event of the current screen; \<open>None\<close> for the
  timers, the transfer samples and the passing of time, which the old screen does
  not have.\<close>

fun abs_event :: "event \<Rightarrow> old_event option" where
  "abs_event Convert = Some OConvert"
| "abs_event (ConvertResolves r resp) = Some (OResolves resp)"
| "abs_event (ConvertRejects r e) = Some (ORejects e)"
| "abs_event (UrlChange u) = Some (OUrlInput u)"
| "abs_event (SelectQuality q) = Some (OSelectQuality q)"
| "abs_event (SelectFormat f) = Some (OSelectFormat f)"
| "abs_event _ = None"

definition is_preview_event :: "event \<Rightarrow> bool" where
  "is_preview_event e \<longleftrightarrow> (case e of PreviewResolves p v \<Rightarrow> True | PreviewRejects p \<Rightarrow> True | _ \<Rightarrow> False)"

section \<open>Refinement\<close>

lemma abs_app_init: "abs_app (init_app base t0) = old_init base"
  by (simp add: abs_app_def init_app_def old_init_def)

text \<open>C18. The current screen refines the old one: its Convert handler, both
  settlements of the request and its URL input, seen through \<open>abs_app\<close>, are the
  old screen's handlers (job tracking, previews and timers are additions that the
  old screen's state does not see).\<close>

theorem current_screen_refines_old:
  "abs_app (handle_convert s) = old_handle_convert (abs_app s) \<and>
   abs_app (handle_convert_success r resp s) = old_convert_success resp (abs_app s) \<and>
   abs_app (handle_convert_failure r e s) = old_convert_failure e (abs_app s) \<and>
   abs_app (handle_url_change u s) = old_url_input u (abs_app s)"
  by (simp add: abs_app_def handle_convert_def old_handle_convert_def handle_convert_success_def
      old_convert_success_def handle_convert_failure_def old_convert_failure_def
      handle_url_change_def old_url_input_def close_request_def remove_download_after_delay_def Let_def)

section \<open>Runs of the current screen are runs of the old one\<close>

lemma abs_app_stutter:
  "abs_app (handle_tick h s) = abs_app s"
  "abs_app (handle_download_progress r l t s) = abs_app s"
  "abs_app (handle_eviction i s) = abs_app s"
  "abs_app (s\<lparr>now := n\<rparr>) = abs_app s"
  by (simp_all add: abs_app_def handle_tick_def handle_download_progress_def handle_eviction_def
      Let_def case_prod_unfold)

lemma abs_app_handlers:
  "abs_app (handle_convert s) = old_handle_convert (abs_app s)"
  "abs_app (handle_convert_success r resp s) = old_convert_success resp (abs_app s)"
  "abs_app (handle_convert_failure r e s) = old_convert_failure e (abs_app s)"
  "abs_app (handle_url_change u s) = old_url_input u (abs_app s)"
  "abs_app (s\<lparr>quality := q\<rparr>) = (abs_app s)\<lparr>o_quality := q\<rparr>"
  "abs_app (s\<lparr>format := f\<rparr>) = (abs_app s)\<lparr>o_format := f\<rparr>"
  by (simp_all add: abs_app_def handle_convert_def old_handle_convert_def handle_convert_success_def
      old_convert_success_def handle_convert_failure_def old_convert_failure_def
      handle_url_change_def old_url_input_def close_request_def remove_download_after_delay_def Let_def)

lemma old_quality_options_eq: "old_quality_options = quality_options"
  by (simp add: fun_eq_iff old_quality_options_def quality_options_def)

lemma open_request_loading:
  assumes "reachable s" and "r < length (requests s)" and "rq_open (requests s ! r)"
  shows "is_loading s"
proof -
  have "requests s ! r \<in> set (filter rq_open (requests s))" using assms(2,3) by simp
  then have "length (filter rq_open (requests s)) \<noteq> 0" by (metis length_0_conv empty_iff set_empty)
  with reachable_loading_inv [OF assms(1)] show ?thesis
    by (auto simp: loading_inv_def open_requests_def split: if_splits)
qed

lemma abs_app_step:
  assumes "reachable s" and "enabled s e" and "\<not> is_preview_event e"
  shows "case abs_event e of
           None \<Rightarrow> abs_app (app_step s e) = abs_app s
         | Some oe \<Rightarrow> old_enabled (abs_app s) oe \<and> abs_app (app_step s e) = old_step (abs_app s) oe"
proof (cases e)
  case (ConvertResolves r resp)
  with assms open_request_loading [OF assms(1), of r] show ?thesis
    by (simp add: abs_app_handlers) (simp add: abs_app_def)
next
  case (ConvertRejects r err)
  with assms open_request_loading [OF assms(1), of r] show ?thesis
    by (simp add: abs_app_handlers) (simp add: abs_app_def)
qed (insert assms, simp_all add: abs_app_handlers abs_app_stutter old_quality_options_eq is_preview_event_def,
     simp_all add: abs_app_def)

lemma abs_run:
  assumes "reachable s" and "run s es = Some s'" and "\<forall>e \<in> set es. \<not> is_preview_event e"
  shows "old_run (abs_app s) (List.map_filter abs_event es) = Some (abs_app s')"
  using assms
proof (induction es arbitrary: s)
  case Nil
  then show ?case by (simp add: map_filter_simps)
next
  case (Cons e es)
  then have en: "enabled s e" and r: "run (app_step s e) es = Some s'" by (simp_all split: if_splits)
  have re: "reachable (app_step s e)" using Cons.prems(1) en by (rule reachable.step)
  have ih: "old_run (abs_app (app_step s e)) (List.map_filter abs_event es) = Some (abs_app s')"
    using Cons.IH [OF re r] Cons.prems(3) by simp
  from abs_app_step [OF Cons.prems(1) en] Cons.prems(3) ih show ?case
    by (cases "abs_event e") (simp_all add: map_filter_simps)
qed

text \<open>C30. Every run of the current screen without preview lookups, seen through
  \<open>abs_app\<close>, is a run of the old screen: each event is either one of the old
  screen's events, enabled there, with the same effect, or (a timer, a transfer
  sample, the passing of time) invisible to it.  Preview settlements are the one
  addition the old screen can see: they write the error text.\<close>

theorem current_runs_refine_old:
  assumes "run (init_app base t0) es = Some s'" and "\<forall>e \<in> set es. \<not> is_preview_event e"
  shows "old_run (old_init base) (List.map_filter abs_event es) = Some (abs_app s')"
  using abs_run [OF reachable.start assms] by (simp add: abs_app_init)

theorem current_runs_refine_old_witness:
  "old_run (old_init ''api'') (List.map_filter abs_event run_resolved) =
     Some (abs_app (the (run (init_app ''api'' 5) run_resolved))) \<and>
   map_option o_saved (old_run (old_init ''api'') (List.map_filter abs_event run_resolved)) =
     Some [\<lparr>link_href = ''api/f.mp3'', link_download = ''f.mp3''\<rparr>]"
proof -
  have r: "run (init_app ''api'' 5) run_resolved = Some (the (run (init_app ''api'' 5) run_resolved))"
    by (simp add: run_resolved_def resp_ok_def app_eval)
  have p: "\<forall>e \<in> set run_resolved. \<not> is_preview_event e" by (simp add: run_resolved_def is_preview_event_def)
  have v: "saved (the (run (init_app ''api'' 5) run_resolved)) = [\<lparr>link_href = ''api/f.mp3'', link_download = ''f.mp3''\<rparr>]"
    by (simp add: run_resolved_def resp_ok_def app_eval)
  from current_runs_refine_old [OF r p] p v show ?thesis by (simp add: abs_app_def)
qed

end
