(* ===== verification/Theme.thy ===== *)
theory Theme
  imports Legacy
begin

text \<open>
  The colour mode of both screens: Chakra's \<open>useColorMode\<close> gives the mode and
  \<open>toggleColorMode\<close>, which flips it; the header's icon button shows the Sun in
  dark mode and the Moon in light mode.  Every colour the screens compute from
  the mode is a ternary on it; the ones on surfaces that carry text are modelled
  here as background and text colour, for \<open>src/src/App.tsx\<close> and
  \<open>src/src/components/Old.tsx\<close>.  Layout, spacing and static text are not.
\<close>

datatype icon = SunIcon | MoonIcon

text \<open>\<open>toggleColorMode\<close> of Chakra UI: it switches to the other mode.\<close>

definition toggle_color_mode :: "color_mode \<Rightarrow> color_mode" where
  "toggle_color_mode m = (case m of Light \<Rightarrow> Dark | Dark \<Rightarrow> Light)"

text \<open>\<open>icon={colorMode === "dark" ? <SunIcon /> : <MoonIcon />}\<close>, on both screens.\<close>

definition mode_icon :: "color_mode \<Rightarrow> icon" where
  "mode_icon m = (if m = Dark then SunIcon else MoonIcon)"

record surface =
  sf_bg :: string
  sf_color :: string

section \<open>The current screen\<close>

definition page_bg :: "color_mode \<Rightarrow> string" where
  "page_bg m = (if m = Dark then ''#09090B'' else ''#3182ce'')"

text \<open>The panels holding the form, the job list and the description.\<close>

definition panel_surface :: "color_mode \<Rightarrow> surface" where
  "panel_surface m = \<lparr>sf_bg = (if m = Dark then ''#1C1C1F'' else ''white''),
     sf_color = (if m = Dark then ''white'' else ''black'')\<rparr>"

text \<open>The URL input and the quality selector share one style.\<close>

record field_style = surface +
  fs_border :: string
  fs_hover_border :: string
  fs_focus_border :: string
  fs_focus_bg :: string

definition field_surface :: "color_mode \<Rightarrow> field_style" where
  "field_surface m = \<lparr>sf_bg = (if m = Dark then ''#27272A'' else ''white''),
     sf_color = (if m = Dark then ''white'' else ''black''),
     fs_border = (if m = Dark then ''#27272A'' else ''gray.200''),
     fs_hover_border = (if m = Dark then ''#383838'' else ''gray.300''),
     fs_focus_border = ''blue.500'',
     fs_focus_bg = (if m = Dark then ''#383838'' else ''white'')\<rparr>"

definition convert_surface :: "color_mode \<Rightarrow> surface" where
  "convert_surface m = \<lparr>sf_bg = (if m = Dark then ''white'' else ''black''),
     sf_color = (if m = Dark then ''black'' else ''white'')\<rparr>"

text \<open>The background of the format buttons' group and of the preview and job boxes.\<close>

definition box_bg :: "color_mode \<Rightarrow> string" where
  "box_bg m = (if m = Dark then ''#27272A'' else ''gray.100'')"

text \<open>The start and end colours of the preview skeleton's shimmer.\<close>

definition skeleton_colors :: "color_mode \<Rightarrow> string \<times> string" where
  "skeleton_colors m = (if m = Dark then ''#1C1C1F'' else ''gray.200'', if m = Dark then ''#383838'' else ''gray.400'')"

text \<open>The text gradient of the description's headings, at rest and under the pointer.\<close>

definition heading_gradient :: "color_mode \<Rightarrow> string \<times> string" where
  "heading_gradient m =
     (if m = Dark then ''linear(to-r, blue.300, cyan.300)'' else ''linear(to-r, blue.500, cyan.500)'',
      if m = Dark then ''linear(to-r, blue.200, cyan.200)'' else ''linear(to-r, blue.600, cyan.600)'')"

section \<open>The old screen\<close>

definition old_page_bg :: "color_mode \<Rightarrow> string" where
  "old_page_bg m = (if m = Dark then ''gray.800'' else ''blue.600'')"

definition old_panel_surface :: "color_mode \<Rightarrow> surface" where
  "old_panel_surface m = \<lparr>sf_bg = (if m = Dark then ''gray.700'' else ''white''),
     sf_color = (if m = Dark then ''white'' else ''black'')\<rparr>"

definition old_field_surface :: "color_mode \<Rightarrow> surface" where
  "old_field_surface m = \<lparr>sf_bg = (if m = Dark then ''gray.600'' else ''white''),
     sf_color = (if m = Dark then ''white'' else ''black'')\<rparr>"

text \<open>The quality selector's border, at rest and under the pointer.\<close>

definition old_select_border :: "color_mode \<Rightarrow> string \<times> string" where
  "old_select_border m = (if m = Dark then ''gray.500'' else ''gray.200'', if m = Dark then ''gray.400'' else ''gray.300'')"

definition old_box_bg :: "color_mode \<Rightarrow> string" where
  "old_box_bg m = (if m = Dark then ''gray.600'' else ''gray.100'')"

definition old_convert_surface :: "color_mode \<Rightarrow> surface" where
  "old_convert_surface m = \<lparr>sf_bg = (if m = Dark then ''white'' else ''black''),
     sf_color = (if m = Dark then ''black'' else ''white'')\<rparr>"

end
