(* ===== verification/Spec2Isabelle.thy ===== *)
theory Spec2Isabelle
  imports EventLoop Legacy View Theme
begin

text \<open>
  \<^bold>\<open>A verification model of the download tracking of react-yt-downloader.\<close>

  \<^bold>\<open>The program.\<close>  \<open>src/src/App.tsx\<close> is a React screen that submits a media
  conversion to a backend and tracks each submission as a job in the state
  \<open>downloads\<close> (a dictionary from a job id to a \<open>Download\<close> object).  The Convert
  handler \<open>handleConvert\<close> validates the URL, creates the job under the id
  \<open>Date.now().toString()\<close>, starts a 100 ms \<open>setInterval\<close> that fabricates progress
  (1 per tick, written only while at most 95), and posts the request with an
  \<open>onDownloadProgress\<close> callback that writes \<open>min(99, loaded/total*100)\<close> when it is
  above the fabricated counter.  On success it marks the job complete at 100,
  saves the file through a temporary link, and arms \<open>removeDownloadAfterDelay\<close>
  (3000 ms); on failure it clears the interval, marks the job \<open>error\<close> with the
  server's \<open>detail\<close> or a fallback text, and arms the eviction after 5000 ms.
  \<open>handleUrlChange\<close> fetches a preview for YouTube URLs; its title becomes the
  title of the next job.  \<open>src/src/components/Old.tsx\<close> is an earlier screen
  with the same convert flow and no job tracking.  Everything else in the two
  files is view markup.

  \<^bold>\<open>The theories.\<close>
  \<^item> \<open>Prelude\<close>: the JavaScript primitives the code calls (\<open>||\<close> on strings,
    \<open>trim\<close>, \<open>includes\<close>, \<open>split\<close>/\<open>pop\<close>, \<open>padStart\<close>, decimal \<open>toString\<close>), each
    characterised (\<open>js_trim_Nil_iff\<close>, \<open>js_includes_sublist\<close>, \<open>last_js_split\<close>,
    the print/parse round trip \<open>parse_nat_js_nat_string\<close>, leading zeros
    \<open>parse_nat_pad_start\<close>), list lemmas shared by the invariants, and the named
    rule collections \<open>registry_simps\<close> and \<open>handler_simps\<close>.
  \<^item> \<open>Lifecycle\<close> (LifecycleClassifier): the \<open>status\<close> union as a datatype ordered
    as the lifecycle (a \<open>linorder\<close> instance), and \<open>classify\<close>, the inline
    \<open>p < 30 ? ... : p < 80 ? ... : ...\<close>; C6 proves it monotone.
  \<^item> \<open>Registry\<close> (JobRegistry): \<open>Download\<close> as a record of optional fields (an
    absent entry spreads to \<open>{}\<close>), the registry as a map, and the writers of
    \<open>setDownloads\<close>, all built on \<open>merge_job\<close> (the code's
    \<open>{...prev, [id]: {...prev[id], ...}}\<close>); frame lemmas, the progress range
    \<open>progress_ok\<close> and the terminal-entry invariant \<open>entries_ok\<close>.
  \<^item> \<open>Simulator\<close> (ProgressSimulator): the interval as a record (job, counter
    \<open>artificialProgress\<close>, armed flag, next due time), \<open>interval_tick\<close> for the
    callback, \<open>clear_interval\<close> and \<open>run_ticks\<close>, the callback iterated; C3 (no
    tick claims completion) and C5 (after \<open>n\<close> ticks the entry shows
    \<open>min(c + n, 95)\<close>); \<open>run_ticks_after_cap\<close>: past 95 nothing more is written.
  \<^item> \<open>TransferAdapter\<close>: \<open>transfer_percent\<close> (\<open>total || 100\<close>) and
    \<open>on_download_progress\<close>; C4, the forward-merge rule.
  \<^item> \<open>Orchestrator\<close> (DownloadOrchestrator, EvictionScheduler, PreviewLookup): the
    React state as the record \<open>app\<close>, \<open>qualityOptions\<close>, the closures as lists of
    intervals, requests, eviction timers and preview lookups, and one definition
    per callback (\<open>handle_convert\<close> up to the \<open>await\<close>, \<open>handle_convert_success\<close>
    and \<open>handle_convert_failure\<close> for the two settlements with the \<open>finally\<close>,
    \<open>handle_tick\<close>, \<open>handle_download_progress\<close>, \<open>handle_eviction\<close>,
    \<open>handle_url_change\<close> and the two preview settlements); C10 to C16 (C13: one
    failure gives one non-empty message in the form, the job and the toast).
  \<^item> \<open>EventLoop\<close>: the events, when the browser can run each (\<open>enabled\<close>: a timer
    only when due and armed, a request settles once, Convert only while not
    loading, a quality only from the options, either format), \<open>app_step\<close>, the
    executable \<open>run\<close> and the inductive \<open>reachable\<close>; C1 (job isolation), and by
    rule induction C2 (progress range) and C19 (one conversion in flight exactly
    while \<open>isLoading\<close>).
  \<^item> \<open>Closures\<close>: the invariant C20 (\<open>wf_app\<close>: request \<open>r\<close> owns interval \<open>r\<close> of
    the same job, intervals are due within one period, selected and submitted
    qualities are values of \<open>qualityOptions\<close>); on top of it C21 (only a
    rejection disarms an interval), C22 (liveness: an armed interval fires any
    number of times), C23 (the status \<open>error\<close> is final while ids are
    distinct) and C31 (one toast per settled request, one saved file per success
    toast); \<open>tick_round\<close>, one period of an interval, computed in every reachable state by \<open>tick_round_step\<close>.
  \<^item> \<open>View\<close> (ActiveDownloadsView, PreviewCardView, FormControlsView): the job
    card as a record computed by \<open>render_card\<close>, the visibility conditions of the
    job list, the error text, the skeleton and the preview card, the \<open>m:ss\<close>
    duration \<open>format_duration\<close>, the format buttons' styles and the Convert label;
    C24 to C28.
  \<^item> \<open>Legacy\<close> (LegacyConverterScreen): the state, handlers, events and view logic
    of \<open>Old.tsx\<close> (\<open>old_app\<close>, \<open>old_step\<close>, \<open>old_enabled\<close>, \<open>old_run\<close>) and the
    abstraction \<open>abs_app\<close>/\<open>abs_event\<close>; C18 (handlers commute with the
    abstraction) and C30 (every run of the current screen without preview lookups
    is a run of the old one).
  \<^item> \<open>Theme\<close> (ThemeAndLayout): Chakra's colour mode, its toggle and icon, and the
    mode-dependent colours of the page, panels, input fields, boxes, skeletons,
    headings and Convert button of both screens, as definitions only (they are
    fixed ternaries on the mode that nothing else reads).
  \<^item> This theory: the races between the callbacks, each a theorem over every
    reachable state that meets its condition, with a run of the event loop that
    meets it as witness: C7 (a completed job is overwritten by its still-armed
    interval), C8 (an evicted job is re-created without id, URL or title and
    rendered untitled), C9 (a tick lowers a larger value written by the transfer
    adapter), C17 (a late preview lookup titles the next job) and C29 (two
    submissions in one millisecond share a job, and the first eviction deletes
    the second's entry).

  \<^bold>\<open>Time and bounds.\<close>  Time is a natural number of milliseconds, advanced by
  \<open>TimePasses\<close>; a timer may fire at any moment once due, so the model allows
  every interleaving the browser could produce (and some delays it would not).
  No fuel is needed: every callback runs to completion, and the possibly endless
  interval is a sequence of separate \<open>IntervalFires\<close> events, so the model has
  no loop; \<open>run\<close> is structural recursion on the list of events.
  Progress is a rational number: JavaScript's floating-point quotient is replaced
  by the exact one, which preserves every comparison the code makes for the inputs
  used here.  Durations are whole seconds; C27 bounds the text for the videos of
  under an hour that the service accepts.  The format buttons are both enabled:
  the MP4 button's raw \<open>disabled\<close> attribute is not relied on, since the screen's
  own guide tells users to pick MP4.

  \<^bold>\<open>What the model shows about the code.\<close>  The registry writers are
  race-free (C1): each callback merges into the current map and touches its own
  key.  Progress stays in 0..100 (C2).  The simulator never claims completion
  (C3) and counts as intended (C5); the adapter writes only values above the
  simulator's counter (C4).  But the success path never calls
  \<open>clearInterval\<close>: only a rejection disarms an interval (C21), so a resolved
  job's interval fires for ever (C22), overwrites the completed job (C7) and,
  once the eviction has removed the entry, re-creates it without id, URL or title
  as an untitled card (C8); and a tick writes its counter regardless of a larger
  value already written by the adapter (C9), so displayed progress is not
  monotone.  The error path is sound (C23) unless two submissions fall in one
  millisecond, when they share a job and the first eviction deletes the second
  job (C29).  A preview lookup that settles late overwrites a newer one and its
  title is then given to the next job (C17).  The cards never show an undefined
  label or a green bar below 100 (C24), their colours agree (C25); the duration
  text reads back (C26).  The current screen refines the old one (C18, C30).
  Notifications match settlements (C31).

  \<^bold>\<open>Not modelled.\<close>  Layout, spacing, static text, the headings' gradients, the
  header, description and footer (presentation only: fixed strings and colour
  ternaries on the mode that no other part reads); the order of the job cards (the insertion order of
  \<open>Object.values\<close>) and the decimal text of non-integer progress values; the
  backend (its responses are inputs of the events); the DOM calls of the file
  save (recorded as the saved link).  Strings are 8-bit (Latin-1): the white space
  that \<open>trim\<close> removes above U+00FF, and \<open>Number.prototype.toString\<close> of the
  non-integer progress values (shortest round-trip text of a double, which exact
  rationals do not reproduce), are outside the model; so \<open>{download.progress}%\<close>
  is modelled as the value, not its text.

  \<^bold>\<open>Plan.\<close>  Next: a running-maximum reference for the progress writers, as
  the spec describes it, with the refinement failing exactly on the runs of C9;
  preview lookups tagged with their URL and the proof that a tagged settlement
  cannot give a stale title; folding helper lemmas shared by the invariants into
  one preservation scheme.
\<close>

section \<open>Inputs of the witnesses\<close>

text \<open>Inputs of the witnesses below.\<close>

definition run_evicted_state :: "event list" where
  "run_evicted_state = run_resolved @ [TimePasses 3000, EvictionFires 0]"

definition run_sampled :: "event list" where
  "run_sampled = run_one @ [TimePasses 100, IntervalFires 0, DownloadProgress 0 50 (Some 100)]"

definition run_two_urls :: "event list" where
  "run_two_urls = [UrlChange ''https://youtu.be/a'', UrlChange ''https://youtu.be/b'']"

definition video_old :: vinfo where
  "video_old = \<lparr>vi_title = ''Video A'', vi_duration = 61, vi_thumbnail = []\<rparr>"

definition run_reused_id :: "event list" where
  "run_reused_id = run_one @ [ConvertRejects 0 OtherError, UrlChange ''v'']"

lemmas races_eval = run_one_def run_resolved_def resp_ok_def run_evicted_state_def run_sampled_def
  run_two_urls_def video_old_def run_reused_id_def app_eval

section \<open>Races between the callbacks\<close>

lemma tick_round_writes:
  assumes "reachable s" and "h < length (intervals s)" and "iv_live (intervals s ! h)"
    and "Suc (iv_count (intervals s ! h)) \<le> artificial_cap"
  shows "\<exists>s'. run s (tick_round h) = Some s' \<and>
           downloads s' (iv_job (intervals s ! h)) =
             Some (sim_write (downloads s (iv_job (intervals s ! h))) (Suc (iv_count (intervals s ! h))))"
  using tick_round_step [OF assms(1-3)] assms(4)
  by (simp add: handler_simps interval_tick_def Let_def set_progress_same sim_write_def)

text \<open>C7. Completion is not final: whenever a request resolves before its job's
  counter reached 95, the job is marked complete, and one period later the
  still-armed interval writes its counter and a non-terminal status over it.\<close>

theorem completion_overwritten:
  assumes "reachable s" and "enabled s (ConvertResolves r resp)"
    and "Suc (iv_count (intervals s ! r)) \<le> artificial_cap"
  shows "dl_status (the (downloads (app_step s (ConvertResolves r resp)) (rq_job (requests s ! r)))) = Some Complete \<and>
         (\<exists>s'. run (app_step s (ConvertResolves r resp)) (tick_round r) = Some s' \<and>
            dl_progress (the (downloads s' (rq_job (requests s ! r)))) = Some (of_nat (Suc (iv_count (intervals s ! r)))) \<and>
            dl_status (the (downloads s' (rq_job (requests s ! r)))) \<noteq> Some Complete)"
proof -
  let ?s1 = "app_step s (ConvertResolves r resp)"
  have wf: "wf_app s" using assms(1) by (rule reachable_wf_app)
  have r: "r < length (requests s)" "rq_open (requests s ! r)" using assms(2) by simp_all
  with wf have h: "r < length (intervals s)" "iv_live (intervals s ! r)"
    "iv_job (intervals s ! r) = rq_job (requests s ! r)"
    by (auto simp: wf_app_def)
  have re: "reachable ?s1" using assms(1,2) by (rule reachable.step)
  have iv: "intervals ?s1 = intervals s" by (simp add: handler_simps)
  obtain s' where run: "run ?s1 (tick_round r) = Some s'"
    and d: "downloads s' (rq_job (requests s ! r)) =
              Some (sim_write (downloads ?s1 (rq_job (requests s ! r))) (Suc (iv_count (intervals s ! r))))"
    using tick_round_writes [of ?s1 r] re h assms(3) iv by auto
  show ?thesis
    using run d by (auto simp: handler_simps registry_simps sim_write_def)
qed

text \<open>C8. An evicted job comes back: in any reachable state where an armed interval's
  job has no entry and its counter is below 95, the next tick re-creates an entry
  without id, URL or title, rendered as a card with no title but a status label.\<close>

theorem evicted_job_resurrected:
  assumes "reachable s" and "h < length (intervals s)" and "iv_live (intervals s ! h)"
    and "Suc (iv_count (intervals s ! h)) \<le> artificial_cap"
    and "downloads s (iv_job (intervals s ! h)) = None"
  shows "\<exists>s' d. run s (tick_round h) = Some s' \<and> downloads s' (iv_job (intervals s ! h)) = Some d \<and>
           dl_id d = None \<and> dl_url d = None \<and> dl_title d = None \<and> card_title (render_card d) = None \<and>
           card_label (render_card d) \<noteq> None"
  using tick_round_writes [OF assms(1-4)] assms(5)
proof -
  let ?d = "sim_write None (Suc (iv_count (intervals s ! h)))"
  obtain s' where "run s (tick_round h) = Some s'" and "downloads s' (iv_job (intervals s ! h)) = Some ?d"
    using tick_round_writes [OF assms(1-4)] assms(5) by auto
  moreover have "dl_id ?d = None \<and> dl_url ?d = None \<and> dl_title ?d = None \<and>
      card_title (render_card ?d) = None \<and> card_label (render_card ?d) \<noteq> None"
    by (simp add: sim_write_def empty_download_def render_card_def card_title_text_def status_label_def
        del: of_nat_Suc)
  ultimately show ?thesis by blast
qed

text \<open>C9. Displayed progress is not monotone: whenever a job shows a value above its
  interval's next counter (as after any transfer sample, C4), the next tick writes
  the smaller counter over it.\<close>

theorem tick_regresses_progress:
  assumes "reachable s" and "h < length (intervals s)" and "iv_live (intervals s ! h)"
    and "Suc (iv_count (intervals s ! h)) \<le> artificial_cap"
    and "downloads s (iv_job (intervals s ! h)) = Some d" and "dl_progress d = Some p"
    and "of_nat (Suc (iv_count (intervals s ! h))) < p"
  shows "\<exists>s' d'. run s (tick_round h) = Some s' \<and> downloads s' (iv_job (intervals s ! h)) = Some d' \<and>
           dl_progress d' = Some (of_nat (Suc (iv_count (intervals s ! h)))) \<and>
           the (dl_progress d') < the (dl_progress d)"
  using tick_round_writes [OF assms(1-4)] assms(5-7) by (auto simp: sim_write_def)

text \<open>C17. The next job takes its title from whichever preview lookup settled last,
  whatever URL that lookup was for: after any lookup resolves, Convert creates the
  job for the current URL titled with that lookup's video.\<close>

theorem stale_preview_titles_job:
  assumes "enabled s (PreviewResolves p v)" and "\<not> is_loading s" and "js_trim (url s) \<noteq> []"
    and "vi_title v \<noteq> []"
  shows "run s [PreviewResolves p v, Convert] =
           Some (app_step (app_step s (PreviewResolves p v)) Convert) \<and>
         downloads (app_step (app_step s (PreviewResolves p v)) Convert) (download_id (now s)) =
           Some (new_download (download_id (now s)) (url s) (vi_title v))"
  using assms by (simp add: handle_preview_success_def close_preview_def handle_convert_def
      create_download_def js_or_def Let_def)

text \<open>C29. Ids collide within one millisecond: whenever an unfired eviction is armed for
  the id the clock gives now, a submission reuses that id, and the eviction deletes
  the new job's entry while its request is still in flight.\<close>

theorem same_millisecond_collision:
  assumes "\<not> is_loading s" and "js_trim (url s) \<noteq> []" and "i < length (evictions s)"
    and "\<not> ev_fired (evictions s ! i)" and "ev_job (evictions s ! i) = download_id (now s)"
  shows "\<exists>s'. run s [Convert, TimePasses (ev_due (evictions s ! i) - now s), EvictionFires i] = Some s' \<and>
           downloads s' (download_id (now s)) = None \<and> is_loading s' \<and>
           rq_job (last (requests s')) = download_id (now s) \<and> rq_open (last (requests s'))"
  using assms by (simp add: handle_convert_def handle_eviction_def remove_download_def Let_def)

theorem completion_overwritten_witness:
  "reachable (the (run (init_app ''api'' 5) run_one)) \<and>
   enabled (the (run (init_app ''api'' 5) run_one)) (ConvertResolves 0 resp_ok) \<and>
   (\<exists>s'. run (app_step (the (run (init_app ''api'' 5) run_one)) (ConvertResolves 0 resp_ok)) (tick_round 0) = Some s' \<and>
      dl_progress (the (downloads s' ''5'')) = Some 1 \<and> dl_status (the (downloads s' ''5'')) \<noteq> Some Complete)"
proof -
  let ?s = "the (run (init_app ''api'' 5) run_one)"
  have r: "run (init_app ''api'' 5) run_one = Some ?s" by (simp add: races_eval)
  have re: "reachable ?s" using run_init_reachable [OF r] .
  have e: "enabled ?s (ConvertResolves 0 resp_ok)" and c: "Suc (iv_count (intervals ?s ! 0)) \<le> artificial_cap"
    and k: "rq_job (requests ?s ! 0) = ''5''" and z: "iv_count (intervals ?s ! 0) = 0"
    by (simp_all add: races_eval)
  from completion_overwritten [OF re e c] re e k z show ?thesis by auto
qed

theorem evicted_job_resurrected_witness:
  "reachable (the (run (init_app ''api'' 5) run_evicted_state)) \<and>
   downloads (the (run (init_app ''api'' 5) run_evicted_state)) ''5'' = None \<and>
   (\<exists>s' d. run (the (run (init_app ''api'' 5) run_evicted_state)) (tick_round 0) = Some s' \<and>
      downloads s' ''5'' = Some d \<and> card_title (render_card d) = None)"
proof -
  let ?s = "the (run (init_app ''api'' 5) run_evicted_state)"
  have r: "run (init_app ''api'' 5) run_evicted_state = Some ?s" by (simp add: races_eval)
  have re: "reachable ?s" using run_init_reachable [OF r] .
  have h: "0 < length (intervals ?s)" "iv_live (intervals ?s ! 0)"
    "Suc (iv_count (intervals ?s ! 0)) \<le> artificial_cap" "iv_job (intervals ?s ! 0) = ''5''"
    "downloads ?s ''5'' = None"
    by (simp_all add: races_eval)
  from evicted_job_resurrected [OF re h(1-3)] re h show ?thesis by auto
qed

theorem tick_regresses_progress_witness:
  "reachable (the (run (init_app ''api'' 5) run_sampled)) \<and>
   dl_progress (the (downloads (the (run (init_app ''api'' 5) run_sampled)) ''5'')) = Some 50 \<and>
   (\<exists>s' d'. run (the (run (init_app ''api'' 5) run_sampled)) (tick_round 0) = Some s' \<and>
      downloads s' ''5'' = Some d' \<and> dl_progress d' = Some 2)"
proof -
  let ?s = "the (run (init_app ''api'' 5) run_sampled)"
  have r: "run (init_app ''api'' 5) run_sampled = Some ?s" by (simp add: races_eval)
  have re: "reachable ?s" using run_init_reachable [OF r] .
  have h: "0 < length (intervals ?s)" "iv_live (intervals ?s ! 0)"
    "Suc (iv_count (intervals ?s ! 0)) \<le> artificial_cap" "iv_job (intervals ?s ! 0) = ''5''"
    "downloads ?s ''5'' = Some (the (downloads ?s ''5''))"
    "dl_progress (the (downloads ?s ''5'')) = Some 50" "iv_count (intervals ?s ! 0) = 1"
    by (simp_all add: races_eval transfer_percent_def total_or_100_def)
  have lt: "of_nat (Suc (iv_count (intervals ?s ! 0))) < (50::rat)" using h(7) by simp
  have d: "downloads ?s (iv_job (intervals ?s ! 0)) = Some (the (downloads ?s ''5''))"
    using h(4,5) by simp
  from tick_regresses_progress [OF re h(1-3) d h(6) lt] re h show ?thesis by auto
qed

theorem stale_preview_titles_job_witness:
  "pv_url (previews (the (run (init_app ''api'' 5) run_two_urls)) ! 0) \<noteq> url (the (run (init_app ''api'' 5) run_two_urls)) \<and>
   downloads (app_step (app_step (the (run (init_app ''api'' 5) run_two_urls)) (PreviewResolves 0 video_old)) Convert) ''5'' =
     Some (new_download ''5'' ''https://youtu.be/b'' ''Video A'')"
proof -
  let ?s = "the (run (init_app ''api'' 5) run_two_urls)"
  have h: "enabled ?s (PreviewResolves 0 video_old)" "\<not> is_loading ?s" "js_trim (url ?s) \<noteq> []"
    "vi_title video_old \<noteq> []" "now ?s = 5" "url ?s = ''https://youtu.be/b''"
    "pv_url (previews ?s ! 0) \<noteq> url ?s"
    by (simp_all add: races_eval)
  from stale_preview_titles_job [OF h(1-4)] h show ?thesis
    by (simp add: video_old_def download_id_def js_nat_string.simps digit_char_def)
qed

theorem same_millisecond_collision_witness:
  "ev_job (evictions (the (run (init_app ''api'' 5) run_reused_id)) ! 0) = download_id 5 \<and>
   (\<exists>s'. run (the (run (init_app ''api'' 5) run_reused_id))
      [Convert, TimePasses 5000, EvictionFires 0] = Some s' \<and> downloads s' ''5'' = None \<and> is_loading s')"
proof -
  let ?s = "the (run (init_app ''api'' 5) run_reused_id)"
  have h: "\<not> is_loading ?s" "js_trim (url ?s) \<noteq> []" "0 < length (evictions ?s)"
    "\<not> ev_fired (evictions ?s ! 0)" "ev_job (evictions ?s ! 0) = download_id (now ?s)"
    "ev_due (evictions ?s ! 0) - now ?s = 5000" "now ?s = 5"
    by (simp_all add: races_eval)
  have k: "download_id (now ?s) = ''5''" using h(7) by (simp add: download_id_def js_nat_string.simps digit_char_def)
  from same_millisecond_collision [OF h(1-5)] obtain s' where
    a: "run ?s [Convert, TimePasses (ev_due (evictions ?s ! 0) - now ?s), EvictionFires 0] = Some s'"
    and b: "downloads s' (download_id (now ?s)) = None" "is_loading s'" by blast
  have k5: "download_id 5 = ''5''" by (simp add: download_id_def js_nat_string.simps digit_char_def)
  from a [unfolded h(6)] b h(5) k show ?thesis by (simp only: k k5) blast
qed

end
